theory Spec2Isabelle
  imports Complex_Main
begin

section \<open>Values of type float64\<close>

text \<open>
  A Go \<open>float64\<close> is an IEEE 754 double. The model keeps the special values apart:
  \<open>NaN\<close> (all NaNs are one value), the two infinities, the negative zero \<open>NZero\<close>,
  and \<open>Fin x\<close> for every other value (\<open>Fin 0\<close> is the positive zero).

  Comparisons and \<open>math.Max\<close> are exact operations of IEEE 754 and are modelled as
  Go computes them. Addition, subtraction, multiplication, division and square root
  round their results; the model does not fix a rounding and takes the five operations
  as a parameter \<open>ar\<close> of every function that calculates. What is proved for every
  \<open>ar\<close> holds for the arithmetic of the machine.
\<close>

datatype float64 = NaN | PInf | NInf | NZero | Fin real

fun num :: "float64 \<Rightarrow> real" where
  "num (Fin x) = x"
| "num _ = 0"

text \<open>The Go operators \<open>x <= y\<close>, \<open>x > y\<close> and \<open>x == y\<close>: false whenever an operand is NaN.\<close>

fun fle :: "float64 \<Rightarrow> float64 \<Rightarrow> bool" where
  "fle NaN _ = False"
| "fle _ NaN = False"
| "fle NInf _ = True"
| "fle _ PInf = True"
| "fle PInf _ = False"
| "fle _ NInf = False"
| "fle x y = (num x \<le> num y)"

fun fgt :: "float64 \<Rightarrow> float64 \<Rightarrow> bool" where
  "fgt NaN _ = False"
| "fgt _ NaN = False"
| "fgt _ PInf = False"
| "fgt NInf _ = False"
| "fgt PInf _ = True"
| "fgt _ NInf = True"
| "fgt x y = (num x > num y)"

fun feq :: "float64 \<Rightarrow> float64 \<Rightarrow> bool" where
  "feq NaN _ = False"
| "feq _ NaN = False"
| "feq PInf y = (y = PInf)"
| "feq x PInf = False"
| "feq NInf y = (y = NInf)"
| "feq x NInf = False"
| "feq x y = (num x = num y)"

fun Signbit :: "float64 \<Rightarrow> bool" where
  "Signbit NInf = True"
| "Signbit NZero = True"
| "Signbit (Fin x) = (x < 0)"
| "Signbit _ = False"

text \<open>
  \<open>math.Max\<close> of the Go standard library:
  \<^verbatim>\<open>
  switch {
  case IsInf(x, 1) || IsInf(y, 1): return Inf(1)
  case IsNaN(x) || IsNaN(y):       return NaN()
  case x == 0 && x == y:           if Signbit(x) { return y }; return x
  }
  if x > y { return x }
  return y
  \<close>
\<close>

definition math_Max :: "float64 \<Rightarrow> float64 \<Rightarrow> float64" where
  "math_Max x y =
     (if x = PInf \<or> y = PInf then PInf
      else if x = NaN \<or> y = NaN then NaN
      else if feq x (Fin 0) \<and> feq x y then (if Signbit x then y else x)
      else if fgt x y then x
      else y)"

record arith =
  fadd :: "float64 \<Rightarrow> float64 \<Rightarrow> float64"
  fsub :: "float64 \<Rightarrow> float64 \<Rightarrow> float64"
  fmul :: "float64 \<Rightarrow> float64 \<Rightarrow> float64"
  fdiv :: "float64 \<Rightarrow> float64 \<Rightarrow> float64"
  fsqrt :: "float64 \<Rightarrow> float64"

text \<open>
  One arithmetic to run the functions on concrete inputs: the IEEE 754 rules for the
  special values, and the exact result on finite values (no rounding, no overflow).
\<close>

fun fneg :: "float64 \<Rightarrow> float64" where
  "fneg NaN = NaN"
| "fneg PInf = NInf"
| "fneg NInf = PInf"
| "fneg NZero = Fin 0"
| "fneg (Fin x) = (if x = 0 then NZero else Fin (- x))"

fun exact_add :: "float64 \<Rightarrow> float64 \<Rightarrow> float64" where
  "exact_add NaN _ = NaN"
| "exact_add _ NaN = NaN"
| "exact_add PInf NInf = NaN"
| "exact_add NInf PInf = NaN"
| "exact_add PInf _ = PInf"
| "exact_add _ PInf = PInf"
| "exact_add NInf _ = NInf"
| "exact_add _ NInf = NInf"
| "exact_add NZero y = y"
| "exact_add x NZero = x"
| "exact_add (Fin x) (Fin y) = Fin (x + y)"

definition exact_sub :: "float64 \<Rightarrow> float64 \<Rightarrow> float64" where
  "exact_sub x y = exact_add x (fneg y)"

definition is_zero :: "float64 \<Rightarrow> bool" where
  "is_zero x = (x = NZero \<or> x = Fin 0)"

definition is_inf :: "float64 \<Rightarrow> bool" where
  "is_inf x = (x = PInf \<or> x = NInf)"

definition signed :: "bool \<Rightarrow> float64 \<Rightarrow> float64" where
  "signed neg x = (if neg then fneg x else x)"

definition exact_mul :: "float64 \<Rightarrow> float64 \<Rightarrow> float64" where
  "exact_mul x y =
     (if x = NaN \<or> y = NaN then NaN
      else if (is_inf x \<and> is_zero y) \<or> (is_zero x \<and> is_inf y) then NaN
      else if is_inf x \<or> is_inf y then signed (Signbit x \<noteq> Signbit y) PInf
      else if is_zero x \<or> is_zero y then signed (Signbit x \<noteq> Signbit y) (Fin 0)
      else Fin (num x * num y))"

definition exact_div :: "float64 \<Rightarrow> float64 \<Rightarrow> float64" where
  "exact_div x y =
     (if x = NaN \<or> y = NaN then NaN
      else if (is_inf x \<and> is_inf y) \<or> (is_zero x \<and> is_zero y) then NaN
      else if is_inf x \<or> is_zero y then signed (Signbit x \<noteq> Signbit y) PInf
      else if is_inf y \<or> is_zero x then signed (Signbit x \<noteq> Signbit y) (Fin 0)
      else Fin (num x / num y))"

fun exact_sqrt :: "float64 \<Rightarrow> float64" where
  "exact_sqrt NaN = NaN"
| "exact_sqrt PInf = PInf"
| "exact_sqrt NInf = NaN"
| "exact_sqrt NZero = NZero"
| "exact_sqrt (Fin x) = (if x < 0 then NaN else Fin (sqrt x))"

definition exact :: arith where
  "exact = \<lparr>fadd = exact_add, fsub = exact_sub, fmul = exact_mul, fdiv = exact_div,
             fsqrt = exact_sqrt\<rparr>"

section \<open>Slices and the memory behind them\<close>

text \<open>
  A Go slice is a pointer into a backing array, a length and a capacity. Two slices may
  share memory, so the arrays live in one memory \<open>mem\<close>, a map from addresses to
  values, and a slice is the header only. An index expression \<open>s[i]\<close> panics
  (a run-time error) unless \<open>0 \<le> i < len(s)\<close>; a slice expression \<open>s[lo:hi]\<close>
  panics unless \<open>0 \<le> lo \<le> hi \<le> cap(s)\<close>.

  Go's \<open>int\<close> has 64 bits. The indices are modelled as mathematical integers, which
  agrees with the machine wherever \<open>r*Stride + c\<close> does not overflow: that is so for
  every index into a slice that fits into memory.
\<close>

datatype panic =
    ErrShape
  | ErrRowAccess
  | ErrColAccess
  | PanicStr string
  | RuntimeIndex
  | RuntimeSlice

record slice =
  ptr :: nat
  len :: nat
  cap :: nat

type_synonym mem = "nat \<Rightarrow> float64"

definition index_read :: "slice \<Rightarrow> int \<Rightarrow> mem \<Rightarrow> panic + float64" where
  "index_read s i m =
     (if 0 \<le> i \<and> i < int (len s) then Inr (m (ptr s + nat i)) else Inl RuntimeIndex)"

definition index_write :: "slice \<Rightarrow> int \<Rightarrow> float64 \<Rightarrow> mem \<Rightarrow> panic + mem" where
  "index_write s i v m =
     (if 0 \<le> i \<and> i < int (len s) then Inr (m(ptr s + nat i := v)) else Inl RuntimeIndex)"

definition reslice :: "slice \<Rightarrow> int \<Rightarrow> int \<Rightarrow> panic + slice" where
  "reslice s lo hi =
     (if 0 \<le> lo \<and> lo \<le> hi \<and> hi \<le> int (cap s)
      then Inr \<lparr>ptr = ptr s + nat lo, len = nat (hi - lo), cap = cap s - nat lo\<rparr>
      else Inl RuntimeSlice)"

section \<open>The matrix views\<close>

text \<open>
  The views wrap the structs of package blas64 in a field \<open>mat\<close>:
  \<open>General {Rows, Cols, Stride, Data}\<close> for \<open>Dense\<close>, \<open>Vector {Inc, Data}\<close> (and the
  length \<open>n\<close>) for \<open>Vector\<close>, \<open>Symmetric {N, Stride, Data, Uplo}\<close> for \<open>SymDense\<close> and
  \<open>Triangular {N, Stride, Data, Uplo, Diag}\<close> for \<open>TriDense\<close>. The records share their
  common fields, so that \<open>Stride\<close> and \<open>Data\<close> keep their names in all of them.
  \<open>blas.Uplo\<close> and \<open>blas.Diag\<close> are numeric types: \<open>UploUnset\<close> and \<open>DiagUnset\<close> are
  their zero values, which name no triangle and no kind of diagonal. The field \<open>n\<close> of
  \<open>Vector\<close> is \<open>Vector_n\<close> here.
\<close>

datatype Uplo = UploUnset | Upper | Lower | UploAll

datatype Diag = DiagUnset | NonUnit | Unit

record Buffer =
  Data :: slice

record Strided = Buffer +
  Stride :: int

record General = Strided +
  Rows :: int
  Cols :: int

record Vector = Buffer +
  Inc :: int
  Vector_n :: int

record Symmetric = Strided +
  N :: int
  Uplo :: Uplo

record Triangular = Symmetric +
  Diag :: Diag

subsection \<open>Dense\<close>

definition Dense_at :: "General \<Rightarrow> int \<Rightarrow> int \<Rightarrow> mem \<Rightarrow> panic + float64" where
  "Dense_at m r c h = index_read (Data m) (r * Stride m + c) h"

definition Dense_At :: "General \<Rightarrow> int \<Rightarrow> int \<Rightarrow> mem \<Rightarrow> panic + float64" where
  "Dense_At m r c h =
     (if r \<ge> Rows m \<or> r < 0 then Inl ErrRowAccess
      else if c \<ge> Cols m \<or> c < 0 then Inl ErrColAccess
      else Dense_at m r c h)"

definition Dense_set :: "General \<Rightarrow> int \<Rightarrow> int \<Rightarrow> float64 \<Rightarrow> mem \<Rightarrow> panic + mem" where
  "Dense_set m r c v h = index_write (Data m) (r * Stride m + c) v h"

definition Dense_Set :: "General \<Rightarrow> int \<Rightarrow> int \<Rightarrow> float64 \<Rightarrow> mem \<Rightarrow> panic + mem" where
  "Dense_Set m r c v h =
     (if r \<ge> Rows m \<or> r < 0 then Inl ErrRowAccess
      else if c \<ge> Cols m \<or> c < 0 then Inl ErrColAccess
      else Dense_set m r c v h)"

subsection \<open>Vector\<close>

definition Vector_at :: "Vector \<Rightarrow> int \<Rightarrow> mem \<Rightarrow> panic + float64" where
  "Vector_at m r h = index_read (Data m) (r * Inc m) h"

definition Vector_At :: "Vector \<Rightarrow> int \<Rightarrow> int \<Rightarrow> mem \<Rightarrow> panic + float64" where
  "Vector_At m r c h =
     (if r < 0 \<or> r \<ge> Vector_n m then Inl ErrRowAccess
      else if c \<noteq> 0 then Inl ErrColAccess
      else Vector_at m r h)"

definition Vector_set :: "Vector \<Rightarrow> int \<Rightarrow> float64 \<Rightarrow> mem \<Rightarrow> panic + mem" where
  "Vector_set m r v h = index_write (Data m) (r * Inc m) v h"

definition Vector_Set :: "Vector \<Rightarrow> int \<Rightarrow> int \<Rightarrow> float64 \<Rightarrow> mem \<Rightarrow> panic + mem" where
  "Vector_Set m r c v h =
     (if r < 0 \<or> r \<ge> Vector_n m then Inl ErrRowAccess
      else if c \<noteq> 0 then Inl ErrColAccess
      else Vector_set m r v h)"

subsection \<open>SymDense\<close>

definition SymDense_at :: "Symmetric \<Rightarrow> int \<Rightarrow> int \<Rightarrow> mem \<Rightarrow> panic + float64" where
  "SymDense_at s r c h =
     (if r > c then index_read (Data s) (c * Stride s + r) h
      else index_read (Data s) (r * Stride s + c) h)"

definition SymDense_At :: "Symmetric \<Rightarrow> int \<Rightarrow> int \<Rightarrow> mem \<Rightarrow> panic + float64" where
  "SymDense_At s r c h =
     (if r \<ge> N s \<or> r < 0 then Inl ErrRowAccess
      else if c \<ge> N s \<or> c < 0 then Inl ErrColAccess
      else SymDense_at s r c h)"

definition SymDense_set :: "Symmetric \<Rightarrow> int \<Rightarrow> int \<Rightarrow> float64 \<Rightarrow> mem \<Rightarrow> panic + mem" where
  "SymDense_set s r c v h =
     (if r > c then index_write (Data s) (c * Stride s + r) v h
      else index_write (Data s) (r * Stride s + c) v h)"

definition SymDense_SetSym :: "Symmetric \<Rightarrow> int \<Rightarrow> int \<Rightarrow> float64 \<Rightarrow> mem \<Rightarrow> panic + mem" where
  "SymDense_SetSym s r c v h =
     (if r \<ge> N s \<or> r < 0 then Inl ErrRowAccess
      else if c \<ge> N s \<or> c < 0 then Inl ErrColAccess
      else SymDense_set s r c v h)"

subsection \<open>TriDense\<close>

definition TriDense_at :: "Triangular \<Rightarrow> int \<Rightarrow> int \<Rightarrow> mem \<Rightarrow> panic + float64" where
  "TriDense_at t r c h =
     (if Uplo t = Upper then
        (if r > c then Inr (Fin 0) else index_read (Data t) (r * Stride t + c) h)
      else if r < c then Inr (Fin 0)
      else index_read (Data t) (r * Stride t + c) h)"

definition TriDense_At :: "Triangular \<Rightarrow> int \<Rightarrow> int \<Rightarrow> mem \<Rightarrow> panic + float64" where
  "TriDense_At t r c h =
     (if r \<ge> N t \<or> r < 0 then Inl ErrRowAccess
      else if c \<ge> N t \<or> c < 0 then Inl ErrColAccess
      else TriDense_at t r c h)"

definition TriDense_set :: "Triangular \<Rightarrow> int \<Rightarrow> int \<Rightarrow> float64 \<Rightarrow> mem \<Rightarrow> panic + mem" where
  "TriDense_set t r c v h = index_write (Data t) (r * Stride t + c) v h"

definition TriDense_SetTri :: "Triangular \<Rightarrow> int \<Rightarrow> int \<Rightarrow> float64 \<Rightarrow> mem \<Rightarrow> panic + mem" where
  "TriDense_SetTri t r c v h =
     (if r \<ge> N t \<or> r < 0 then Inl ErrRowAccess
      else if c \<ge> N t \<or> c < 0 then Inl ErrColAccess
      else if Uplo t = Upper \<and> r > c then Inl (PanicStr ''mat64: triangular set out of bounds'')
      else if Uplo t = Lower \<and> r < c then Inl (PanicStr ''mat64: triangular set out of bounds'')
      else TriDense_set t r c v h)"

section \<open>The Cholesky factorization\<close>

subsection \<open>The dot product kernels\<close>

text \<open>
  \<open>asm.DdotInc\<close> and \<open>asm.DdotUnitary\<close> belong to package gonum/internal/asm. They are
  modelled by their reference implementations in Go:
  \<^verbatim>\<open>
  func DdotInc(x, y []float64, n, incX, incY, ix, iy uintptr) (sum float64) {
      for i := 0; i < int(n); i++ { sum += y[iy] * x[ix]; ix += incX; iy += incY }
      return
  }
  func DdotUnitary(x, y []float64) (sum float64) {
      for i, v := range x { sum += y[i] * v }
      return
  }
  \<close>
\<close>

function DdotInc_loop ::
  "arith \<Rightarrow> slice \<Rightarrow> slice \<Rightarrow> int \<Rightarrow> int \<Rightarrow> int \<Rightarrow> int \<Rightarrow> int \<Rightarrow> int \<Rightarrow> float64 \<Rightarrow> mem
     \<Rightarrow> panic + float64" where
  "DdotInc_loop ar x y cnt incX incY ix iy i acc h =
     (if i < cnt then
        (case index_read y iy h of
           Inl e \<Rightarrow> Inl e
         | Inr yv \<Rightarrow>
            (case index_read x ix h of
               Inl e \<Rightarrow> Inl e
             | Inr xv \<Rightarrow>
                DdotInc_loop ar x y cnt incX incY (ix + incX) (iy + incY) (i + 1)
                  (fadd ar acc (fmul ar yv xv)) h))
      else Inr acc)"
  by pat_completeness auto
termination
  by (relation "measure (\<lambda>(ar, x, y, cnt, incX, incY, ix, iy, i, acc, h). nat (cnt - i))") auto

definition DdotInc ::
  "arith \<Rightarrow> slice \<Rightarrow> slice \<Rightarrow> int \<Rightarrow> int \<Rightarrow> int \<Rightarrow> int \<Rightarrow> int \<Rightarrow> mem \<Rightarrow> panic + float64" where
  "DdotInc ar x y cnt incX incY ix iy h = DdotInc_loop ar x y cnt incX incY ix iy 0 (Fin 0) h"

function DdotUnitary_loop ::
  "arith \<Rightarrow> slice \<Rightarrow> slice \<Rightarrow> int \<Rightarrow> float64 \<Rightarrow> mem \<Rightarrow> panic + float64" where
  "DdotUnitary_loop ar x y i acc h =
     (if 0 \<le> i \<and> i < int (len x) then
        (case index_read y i h of
           Inl e \<Rightarrow> Inl e
         | Inr yv \<Rightarrow>
            DdotUnitary_loop ar x y (i + 1) (fadd ar acc (fmul ar yv (h (ptr x + nat i)))) h)
      else Inr acc)"
  by pat_completeness auto
termination
  by (relation "measure (\<lambda>(ar, x, y, i, acc, h). nat (int (len x) - i))") auto

definition DdotUnitary :: "arith \<Rightarrow> slice \<Rightarrow> slice \<Rightarrow> mem \<Rightarrow> panic + float64" where
  "DdotUnitary ar x y h = DdotUnitary_loop ar x y 0 (Fin 0) h"

subsection \<open>Helpers of the repository that the factorization calls\<close>

text \<open>
  \<open>SymDense.Symmetric\<close>, \<open>TriDense.isZero\<close>, \<open>use\<close> and \<open>TriDense.Reset\<close> are defined in
  other files of the package than \<open>cholesky.go\<close> and the file of the accessors.
  \<^item> \<open>isZero\<close> (is the view empty?) and \<open>use\<close> (a slice of the wanted length, taken from
    the capacity of the old one or newly made) are parameters of \<open>Cholesky\<close>: what is
    proved holds for every choice of them. \<open>use\<close> returns the slice and the memory,
    since making a slice initialises fresh memory.
  \<^item> \<open>Symmetric\<close> and \<open>Reset\<close> are the two definitions that follow.
\<close>

definition SymDense_Symmetric :: "Symmetric \<Rightarrow> int" where
  \<comment> \<open>Modelled from the spec: \<open>SymDense.Symmetric\<close> is missing; "n = input dimension",
      the dimension of the symmetric view.\<close>
  "SymDense_Symmetric a = N a"

definition TriDense_Reset :: "Triangular \<Rightarrow> Triangular" where
  \<comment> \<open>Modelled from the spec: \<open>TriDense.Reset\<close> is missing; the target "is reset to an
      empty/zero state", "dimension 0 or all-zero with no orientation claimed": the
      dimension and the stride are 0, the slice has length 0 and keeps its memory,
      the orientation is the zero value.\<close>
  "TriDense_Reset t = t\<lparr>Data := (Data t)\<lparr>len := 0\<rparr>, Stride := 0, N := 0, Uplo := UploUnset\<rparr>"

subsection \<open>The loops\<close>

text \<open>
  A run ends with a panic or with the returned value; either way the receiver \<open>*t\<close>
  and the memory are what the run left: the result is a triple of the outcome, the
  header of \<open>t\<close> and the memory. The loops read the header of \<open>t\<close> and write elements
  of its data; only \<open>Reset\<close> changes the header.
\<close>

function upper_inner ::
  "arith \<Rightarrow> Triangular \<Rightarrow> Symmetric \<Rightarrow> slice \<Rightarrow> int \<Rightarrow> int \<Rightarrow> int \<Rightarrow> float64 \<Rightarrow> mem
     \<Rightarrow> (panic + float64) \<times> mem" where
  "upper_inner ar t a mat stride j k d h =
     (if k < j then
        (case DdotInc ar mat mat k stride stride k j h of
           Inl e \<Rightarrow> (Inl e, h)
         | Inr s0 \<Rightarrow>
            (case SymDense_at a j k h of
               Inl e \<Rightarrow> (Inl e, h)
             | Inr ajk \<Rightarrow>
                (case TriDense_at t k k h of
                   Inl e \<Rightarrow> (Inl e, h)
                 | Inr tkk \<Rightarrow>
                    (case TriDense_set t k j (fdiv ar (fsub ar ajk s0) tkk) h of
                       Inl e \<Rightarrow> (Inl e, h)
                     | Inr h' \<Rightarrow>
                        upper_inner ar t a mat stride j (k + 1)
                          (fadd ar d (fmul ar (fdiv ar (fsub ar ajk s0) tkk)
                                               (fdiv ar (fsub ar ajk s0) tkk))) h'))))
      else (Inr d, h))"
  by pat_completeness auto
termination
  by (relation "measure (\<lambda>(ar, t, a, mat, stride, j, k, d, h). nat (j - k))") auto

function upper_outer ::
  "arith \<Rightarrow> Triangular \<Rightarrow> Symmetric \<Rightarrow> slice \<Rightarrow> int \<Rightarrow> int \<Rightarrow> int \<Rightarrow> mem
     \<Rightarrow> (panic + bool) \<times> Triangular \<times> mem" where
  "upper_outer ar t a mat stride cnt j h =
     (if j < cnt then
        (case upper_inner ar t a mat stride j 0 (Fin 0) h of
           (Inl e, h1) \<Rightarrow> (Inl e, t, h1)
         | (Inr d0, h1) \<Rightarrow>
            (case SymDense_at a j j h1 of
               Inl e \<Rightarrow> (Inl e, t, h1)
             | Inr ajj \<Rightarrow>
                if fle (fsub ar ajj d0) (Fin 0) then (Inr False, TriDense_Reset t, h1)
                else
                  (case TriDense_set t j j
                          (fsqrt ar (math_Max (fsub ar ajj d0) (Fin 0))) h1 of
                     Inl e \<Rightarrow> (Inl e, t, h1)
                   | Inr h2 \<Rightarrow> upper_outer ar t a mat stride cnt (j + 1) h2)))
      else (Inr True, t, h))"
  by pat_completeness auto
termination
  by (relation "measure (\<lambda>(ar, t, a, mat, stride, cnt, j, h). nat (cnt - j))") auto

function lower_inner ::
  "arith \<Rightarrow> Triangular \<Rightarrow> Symmetric \<Rightarrow> slice \<Rightarrow> int \<Rightarrow> int \<Rightarrow> int \<Rightarrow> float64 \<Rightarrow> mem
     \<Rightarrow> (panic + float64) \<times> mem" where
  "lower_inner ar t a mat stride j k d h =
     (if k < j then
        (case reslice mat (k * stride) (k * stride + k) of
           Inl e \<Rightarrow> (Inl e, h)
         | Inr x \<Rightarrow>
            (case reslice mat (j * stride) (j * stride + k) of
               Inl e \<Rightarrow> (Inl e, h)
             | Inr y \<Rightarrow>
                (case DdotUnitary ar x y h of
                   Inl e \<Rightarrow> (Inl e, h)
                 | Inr s0 \<Rightarrow>
                    (case SymDense_at a j k h of
                       Inl e \<Rightarrow> (Inl e, h)
                     | Inr ajk \<Rightarrow>
                        (case TriDense_at t k k h of
                           Inl e \<Rightarrow> (Inl e, h)
                         | Inr tkk \<Rightarrow>
                            (case TriDense_set t j k (fdiv ar (fsub ar ajk s0) tkk) h of
                               Inl e \<Rightarrow> (Inl e, h)
                             | Inr h' \<Rightarrow>
                                lower_inner ar t a mat stride j (k + 1)
                                  (fadd ar d (fmul ar (fdiv ar (fsub ar ajk s0) tkk)
                                                       (fdiv ar (fsub ar ajk s0) tkk))) h'))))))
      else (Inr d, h))"
  by pat_completeness auto
termination
  by (relation "measure (\<lambda>(ar, t, a, mat, stride, j, k, d, h). nat (j - k))") auto

function lower_outer ::
  "arith \<Rightarrow> Triangular \<Rightarrow> Symmetric \<Rightarrow> slice \<Rightarrow> int \<Rightarrow> int \<Rightarrow> int \<Rightarrow> mem
     \<Rightarrow> (panic + bool) \<times> Triangular \<times> mem" where
  "lower_outer ar t a mat stride cnt j h =
     (if j < cnt then
        (case lower_inner ar t a mat stride j 0 (Fin 0) h of
           (Inl e, h1) \<Rightarrow> (Inl e, t, h1)
         | (Inr d0, h1) \<Rightarrow>
            (case SymDense_at a j j h1 of
               Inl e \<Rightarrow> (Inl e, t, h1)
             | Inr ajj \<Rightarrow>
                if fle (fsub ar ajj d0) (Fin 0) then (Inr False, TriDense_Reset t, h1)
                else
                  (case TriDense_set t j j
                          (fsqrt ar (math_Max (fsub ar ajj d0) (Fin 0))) h1 of
                     Inl e \<Rightarrow> (Inl e, t, h1)
                   | Inr h2 \<Rightarrow> lower_outer ar t a mat stride cnt (j + 1) h2)))
      else (Inr True, t, h))"
  by pat_completeness auto
termination
  by (relation "measure (\<lambda>(ar, t, a, mat, stride, cnt, j, h). nat (cnt - j))") auto

subsection \<open>Cholesky\<close>

text \<open>
  \<open>Cholesky_factor\<close> is the part of \<open>TriDense.Cholesky\<close> after the target has been
  allocated or accepted (from \<open>mat := t.mat.Data\<close> to the end); \<open>Cholesky\<close> is the
  whole method.
\<close>

definition Cholesky_factor ::
  "arith \<Rightarrow> Triangular \<Rightarrow> Symmetric \<Rightarrow> bool \<Rightarrow> int \<Rightarrow> mem \<Rightarrow> (panic + bool) \<times> Triangular \<times> mem" where
  "Cholesky_factor ar t a upper cnt h =
     (if upper then upper_outer ar (t\<lparr>Uplo := Upper\<rparr>) a (Data t) (Stride t) cnt 0 h
      else lower_outer ar (t\<lparr>Uplo := Lower\<rparr>) a (Data t) (Stride t) cnt 0 h)"

definition allocated :: "slice \<Rightarrow> int \<Rightarrow> Triangular" where
  "allocated data cnt = \<lparr>Data = data, Stride = cnt, N = cnt, Uplo = UploUnset, Diag = NonUnit\<rparr>"

definition Cholesky ::
  "arith \<Rightarrow> (Triangular \<Rightarrow> bool) \<Rightarrow> (slice \<Rightarrow> int \<Rightarrow> mem \<Rightarrow> slice \<times> mem) \<Rightarrow>
   Triangular \<Rightarrow> Symmetric \<Rightarrow> bool \<Rightarrow> mem \<Rightarrow> (panic + bool) \<times> Triangular \<times> mem" where
  "Cholesky ar isZero use t a upper h =
     (if isZero t then
        Cholesky_factor ar
          (allocated (fst (use (Data t) (SymDense_Symmetric a * SymDense_Symmetric a) h))
             (SymDense_Symmetric a))
          a upper (SymDense_Symmetric a)
          (snd (use (Data t) (SymDense_Symmetric a * SymDense_Symmetric a) h))
      else if SymDense_Symmetric a \<noteq> N t then (Inl ErrShape, t, h)
      else Cholesky_factor ar t a upper (SymDense_Symmetric a) h)"

subsection \<open>The diagonal candidates of a run\<close>

text \<open>
  For the statements about the pivots: the values \<open>d = a.at(j, j) - d\<close> that a run
  computes, in the order of the columns, up to the column where the run ends. The
  functions follow the loops of \<open>Cholesky\<close> and collect \<open>d\<close> instead of returning the
  outcome. The square root is evaluated for every \<open>d\<close> of the list that is not
  \<open>\<le> 0\<close>, and for nothing else.
\<close>

function upper_pivots ::
  "arith \<Rightarrow> Triangular \<Rightarrow> Symmetric \<Rightarrow> slice \<Rightarrow> int \<Rightarrow> int \<Rightarrow> int \<Rightarrow> mem \<Rightarrow> float64 list" where
  "upper_pivots ar t a mat stride cnt j h =
     (if j < cnt then
        (case upper_inner ar t a mat stride j 0 (Fin 0) h of
           (Inl e, h1) \<Rightarrow> []
         | (Inr d0, h1) \<Rightarrow>
            (case SymDense_at a j j h1 of
               Inl e \<Rightarrow> []
             | Inr ajj \<Rightarrow>
                fsub ar ajj d0 #
                (if fle (fsub ar ajj d0) (Fin 0) then []
                 else
                   (case TriDense_set t j j
                           (fsqrt ar (math_Max (fsub ar ajj d0) (Fin 0))) h1 of
                      Inl e \<Rightarrow> []
                    | Inr h2 \<Rightarrow> upper_pivots ar t a mat stride cnt (j + 1) h2))))
      else [])"
  by pat_completeness auto
termination
  by (relation "measure (\<lambda>(ar, t, a, mat, stride, cnt, j, h). nat (cnt - j))") auto

function lower_pivots ::
  "arith \<Rightarrow> Triangular \<Rightarrow> Symmetric \<Rightarrow> slice \<Rightarrow> int \<Rightarrow> int \<Rightarrow> int \<Rightarrow> mem \<Rightarrow> float64 list" where
  "lower_pivots ar t a mat stride cnt j h =
     (if j < cnt then
        (case lower_inner ar t a mat stride j 0 (Fin 0) h of
           (Inl e, h1) \<Rightarrow> []
         | (Inr d0, h1) \<Rightarrow>
            (case SymDense_at a j j h1 of
               Inl e \<Rightarrow> []
             | Inr ajj \<Rightarrow>
                fsub ar ajj d0 #
                (if fle (fsub ar ajj d0) (Fin 0) then []
                 else
                   (case TriDense_set t j j
                           (fsqrt ar (math_Max (fsub ar ajj d0) (Fin 0))) h1 of
                      Inl e \<Rightarrow> []
                    | Inr h2 \<Rightarrow> lower_pivots ar t a mat stride cnt (j + 1) h2))))
      else [])"
  by pat_completeness auto
termination
  by (relation "measure (\<lambda>(ar, t, a, mat, stride, cnt, j, h). nat (cnt - j))") auto

definition Cholesky_factor_pivots ::
  "arith \<Rightarrow> Triangular \<Rightarrow> Symmetric \<Rightarrow> bool \<Rightarrow> int \<Rightarrow> mem \<Rightarrow> float64 list" where
  "Cholesky_factor_pivots ar t a upper cnt h =
     (if upper then upper_pivots ar (t\<lparr>Uplo := Upper\<rparr>) a (Data t) (Stride t) cnt 0 h
      else lower_pivots ar (t\<lparr>Uplo := Lower\<rparr>) a (Data t) (Stride t) cnt 0 h)"

definition Cholesky_pivots ::
  "arith \<Rightarrow> (Triangular \<Rightarrow> bool) \<Rightarrow> (slice \<Rightarrow> int \<Rightarrow> mem \<Rightarrow> slice \<times> mem) \<Rightarrow>
   Triangular \<Rightarrow> Symmetric \<Rightarrow> bool \<Rightarrow> mem \<Rightarrow> float64 list" where
  "Cholesky_pivots ar isZero use t a upper h =
     (if isZero t then
        Cholesky_factor_pivots ar
          (allocated (fst (use (Data t) (SymDense_Symmetric a * SymDense_Symmetric a) h))
             (SymDense_Symmetric a))
          a upper (SymDense_Symmetric a)
          (snd (use (Data t) (SymDense_Symmetric a * SymDense_Symmetric a) h))
      else if SymDense_Symmetric a \<noteq> N t then []
      else Cholesky_factor_pivots ar t a upper (SymDense_Symmetric a) h)"

text \<open>The cells of memory that a slice gives access to.\<close>

definition cells :: "slice \<Rightarrow> nat set" where
  "cells s = {ptr s ..< ptr s + len s}"

section \<open>The solvers\<close>

text \<open>
  The receiver \<open>m\<close> of \<open>SolveCholesky\<close> and \<open>SolveTri\<close> is a pointer to a \<open>Dense\<close>, given
  by its address; the state \<open>world\<close> holds the struct \<open>mat\<close> of the \<open>Dense\<close> at every
  address and the memory of the slices. The argument \<open>b\<close> is a value of the interface
  \<open>Matrix\<close>: a pointer to a \<open>Dense\<close>, written \<open>DenseAt p\<close>, or a value of another type.
  The comparison \<open>b != m\<close> of the source compares the interface value with the pointer:
  it is false exactly when \<open>b\<close> is the pointer \<open>m\<close> itself. The argument \<open>t\<close> is a value
  of the interface \<open>Triangular\<close>, of any type \<open>'t\<close>.

  The solvers do their work through methods and functions that are defined in other
  files of the package or in package blas64: the methods \<open>Dims\<close> and \<open>Triangle\<close> of the
  arguments, \<open>getBlasTriangular\<close>, \<open>Dense.reuseAs\<close>, \<open>Dense.Copy\<close> and \<open>blas64.Trsm\<close>.
  They are the parameter \<open>E\<close> of the model: what the four readers return in a state,
  and for the three others (the calls \<open>ReuseAs\<close>, \<open>Copy\<close> and \<open>Trsm\<close>) the \<open>effect\<close>, which
  maps a call and the state before it to a panic or to the state after it. What is
  proved holds for every \<open>E\<close>.

  A run of a solver is the outcome (a panic, or the normal return), the state it leaves
  and the list of the calls it made, in order.
\<close>

datatype Side = Left | Right

datatype Transpose = NoTrans | Trans | ConjTrans

datatype Matrix = DenseAt nat | Foreign nat

record world =
  dense :: "nat \<Rightarrow> General"
  floats :: mem

datatype call =
    ReuseAs nat int int
  | Copy nat Matrix
  | Trsm Side Transpose float64 Triangular General

record 't deps =
  Matrix_Dims :: "Matrix \<Rightarrow> world \<Rightarrow> int \<times> int"
  Triangular_Dims :: "'t \<Rightarrow> world \<Rightarrow> int \<times> int"
  Triangular_Triangle :: "'t \<Rightarrow> world \<Rightarrow> int \<times> bool"
  getBlasTriangular :: "'t \<Rightarrow> world \<Rightarrow> Triangular"
  effect :: "call \<Rightarrow> world \<Rightarrow> panic + world"

type_synonym run = "(panic + unit) \<times> world \<times> call list"

definition invoke :: "'t deps \<Rightarrow> call \<Rightarrow> world \<Rightarrow> call list \<Rightarrow> run" where
  "invoke E c w cs =
     (case effect E c w of
        Inl e \<Rightarrow> (Inl e, w, cs @ [c])
      | Inr w' \<Rightarrow> (Inr (), w', cs @ [c]))"

definition and_then :: "run \<Rightarrow> (world \<Rightarrow> call list \<Rightarrow> run) \<Rightarrow> run" where
  "and_then r f =
     (case r of
        (Inl e, w, cs) \<Rightarrow> (Inl e, w, cs)
      | (Inr u, w, cs) \<Rightarrow> f w cs)"

definition badTriangle :: string where
  "badTriangle = ''mat64: invalid triangle''"

definition SolveCholesky :: "'t deps \<Rightarrow> nat \<Rightarrow> 't \<Rightarrow> Matrix \<Rightarrow> world \<Rightarrow> run" where
  "SolveCholesky E m t b w =
     (if snd (Triangular_Dims E t w) \<noteq> fst (Matrix_Dims E b w) then (Inl ErrShape, w, [])
      else
        and_then
          (invoke E (ReuseAs m (fst (Matrix_Dims E b w)) (snd (Matrix_Dims E b w))) w [])
          (\<lambda>w1 cs1.
            and_then (if b \<noteq> DenseAt m then invoke E (Copy m b) w1 cs1 else (Inr (), w1, cs1))
              (\<lambda>w2 cs2.
                (case Uplo (getBlasTriangular E t w2) of
                   Upper \<Rightarrow>
                     and_then
                       (invoke E (Trsm Left Trans (Fin 1) (getBlasTriangular E t w2) (dense w2 m))
                          w2 cs2)
                       (\<lambda>w3 cs3.
                          invoke E
                            (Trsm Left NoTrans (Fin 1) (getBlasTriangular E t w2) (dense w3 m))
                            w3 cs3)
                 | Lower \<Rightarrow>
                     and_then
                       (invoke E (Trsm Left NoTrans (Fin 1) (getBlasTriangular E t w2) (dense w2 m))
                          w2 cs2)
                       (\<lambda>w3 cs3.
                          invoke E
                            (Trsm Left Trans (Fin 1) (getBlasTriangular E t w2) (dense w3 m))
                            w3 cs3)
                 | _ \<Rightarrow> (Inl (PanicStr badTriangle), w2, cs2)))))"

definition SolveTri :: "'t deps \<Rightarrow> nat \<Rightarrow> 't \<Rightarrow> bool \<Rightarrow> Matrix \<Rightarrow> world \<Rightarrow> run" where
  "SolveTri E m a tr b w =
     (if fst (Triangular_Triangle E a w) \<noteq> fst (Matrix_Dims E b w) then (Inl ErrShape, w, [])
      else
        and_then
          (invoke E (ReuseAs m (fst (Matrix_Dims E b w)) (snd (Matrix_Dims E b w))) w [])
          (\<lambda>w1 cs1.
            and_then (if b \<noteq> DenseAt m then invoke E (Copy m b) w1 cs1 else (Inr (), w1, cs1))
              (\<lambda>w2 cs2.
                (case Uplo (getBlasTriangular E a w2) of
                   Upper \<Rightarrow>
                     invoke E
                       (Trsm Left (if tr then Trans else NoTrans) (Fin 1)
                          (getBlasTriangular E a w2) (dense w2 m)) w2 cs2
                 | Lower \<Rightarrow>
                     invoke E
                       (Trsm Left (if tr then Trans else NoTrans) (Fin 1)
                          (getBlasTriangular E a w2) (dense w2 m)) w2 cs2
                 | _ \<Rightarrow> (Inl (PanicStr badTriangle), w2, cs2)))))"

section \<open>Concrete views\<close>

text \<open>
  Inputs to run the functions on. \<open>ex_mem\<close> has eight cells: a symmetric 2\<times>2 matrix
  with rows (4, 2) and (2, 5) in the cells 0 to 3, and four cells holding 7 behind it
  for a 2\<times>2 triangular view. \<open>ex_mem_indef\<close> holds the rows (4, 2) and (2, 1) instead, a
  matrix that is not positive definite, \<open>ex_mem_inf\<close> a 2\<times>2 matrix whose elements are
  all \<open>+Inf\<close>, and \<open>ex_mem_nan\<close> a 1\<times>1 matrix whose element is NaN, with one cell
  behind it for a 1\<times>1 triangular view.

  \<open>isZero_stride\<close> and \<open>use_at\<close> are one choice of the two helpers: a view is empty when
  its stride is 0, and \<open>use_at fresh\<close> takes the slice from the capacity of the old one
  if that suffices and else makes one, filled with zeros, at the address \<open>fresh\<close>.
  In \<open>ex_world\<close> every \<open>Dense\<close> wraps the same 2\<times>2 struct. In \<open>ex_deps\<close> the triangular
  values are \<open>TriDense\<close> views given by the struct they wrap, a \<open>Matrix\<close> of another type
  is 3\<times>1, and every call returns with the state unchanged.
\<close>

definition mem_of :: "float64 list \<Rightarrow> mem" where
  "mem_of xs = (\<lambda>i. if i < length xs then xs ! i else Fin 0)"

definition ex_mem :: mem where
  "ex_mem = mem_of [Fin 4, Fin 2, Fin 2, Fin 5, Fin 7, Fin 7, Fin 7, Fin 7]"

definition ex_mem_indef :: mem where
  "ex_mem_indef = mem_of [Fin 4, Fin 2, Fin 2, Fin 1, Fin 7, Fin 7, Fin 7, Fin 7]"

definition ex_mem_nan :: mem where
  "ex_mem_nan = mem_of [NaN, Fin 7]"

definition ex_mem_inf :: mem where
  "ex_mem_inf = mem_of [PInf, PInf, PInf, PInf, Fin 7, Fin 7, Fin 7, Fin 7]"

definition ex_dense :: General where
  "ex_dense = \<lparr>Data = \<lparr>ptr = 0, len = 4, cap = 4\<rparr>, Stride = 2, Rows = 2, Cols = 2\<rparr>"

definition ex_vec :: Vector where
  "ex_vec = \<lparr>Data = \<lparr>ptr = 0, len = 2, cap = 2\<rparr>, Inc = 1, Vector_n = 2\<rparr>"

definition ex_sym :: Symmetric where
  "ex_sym = \<lparr>Data = \<lparr>ptr = 0, len = 4, cap = 4\<rparr>, Stride = 2, N = 2, Uplo = Upper\<rparr>"

definition ex_tri :: "Uplo \<Rightarrow> Triangular" where
  "ex_tri ul = \<lparr>Data = \<lparr>ptr = 4, len = 4, cap = 4\<rparr>, Stride = 2, N = 2, Uplo = ul,
                 Diag = NonUnit\<rparr>"

definition ex_sym1 :: Symmetric where
  "ex_sym1 = \<lparr>Data = \<lparr>ptr = 0, len = 1, cap = 1\<rparr>, Stride = 1, N = 1, Uplo = Upper\<rparr>"

definition ex_tri1 :: "Uplo \<Rightarrow> Triangular" where
  "ex_tri1 ul = \<lparr>Data = \<lparr>ptr = 1, len = 1, cap = 1\<rparr>, Stride = 1, N = 1, Uplo = ul,
                  Diag = NonUnit\<rparr>"

definition ex_empty :: Triangular where
  "ex_empty = \<lparr>Data = \<lparr>ptr = 0, len = 0, cap = 0\<rparr>, Stride = 0, N = 0, Uplo = UploUnset,
                Diag = DiagUnset\<rparr>"

definition isZero_stride :: "Triangular \<Rightarrow> bool" where
  "isZero_stride t = (Stride t = 0)"

definition use_at :: "nat \<Rightarrow> slice \<Rightarrow> int \<Rightarrow> mem \<Rightarrow> slice \<times> mem" where
  "use_at fresh s l h =
     (if l \<le> int (cap s) then (s\<lparr>len := nat l\<rparr>, h)
      else (\<lparr>ptr = fresh, len = nat l, cap = nat l\<rparr>,
            (\<lambda>x. if fresh \<le> x \<and> x < fresh + nat l then Fin 0 else h x)))"

definition ex_world :: world where
  "ex_world = \<lparr>dense = (\<lambda>p. ex_dense), floats = ex_mem\<rparr>"

definition ex_deps :: "Triangular deps" where
  "ex_deps =
     \<lparr>Matrix_Dims = (\<lambda>b w. case b of DenseAt p \<Rightarrow> (Rows (dense w p), Cols (dense w p))
                                   | Foreign p \<Rightarrow> (3, 1)),
      Triangular_Dims = (\<lambda>t w. (N t, N t)),
      Triangular_Triangle = (\<lambda>t w. (N t, Uplo t = Upper)),
      getBlasTriangular = (\<lambda>t w. t),
      effect = (\<lambda>c w. Inr w)\<rparr>"


section \<open>Properties of indexed access\<close>

text \<open>
  C8. In every kind of view the checked accessors panic with the row violation when the
  row index is negative or not below the dimension, and with the column violation when
  the row is in range and the column index is negative or not below the dimension; this
  covers the indices -1 and the dimension itself. In a vector a column index other than
  0 is the column violation.
\<close>

theorem checked_access_out_of_range:
  "(r < 0 \<or> r \<ge> Rows m \<longrightarrow>
      Dense_At m r c h = Inl ErrRowAccess \<and> Dense_Set m r c v h = Inl ErrRowAccess) \<and>
   (0 \<le> r \<and> r < Rows m \<and> (c < 0 \<or> c \<ge> Cols m) \<longrightarrow>
      Dense_At m r c h = Inl ErrColAccess \<and> Dense_Set m r c v h = Inl ErrColAccess) \<and>
   (r < 0 \<or> r \<ge> Vector_n x \<longrightarrow>
      Vector_At x r c h = Inl ErrRowAccess \<and> Vector_Set x r c v h = Inl ErrRowAccess) \<and>
   (0 \<le> r \<and> r < Vector_n x \<and> c \<noteq> 0 \<longrightarrow>
      Vector_At x r c h = Inl ErrColAccess \<and> Vector_Set x r c v h = Inl ErrColAccess) \<and>
   (r < 0 \<or> r \<ge> N s \<longrightarrow>
      SymDense_At s r c h = Inl ErrRowAccess \<and> SymDense_SetSym s r c v h = Inl ErrRowAccess) \<and>
   (0 \<le> r \<and> r < N s \<and> (c < 0 \<or> c \<ge> N s) \<longrightarrow>
      SymDense_At s r c h = Inl ErrColAccess \<and> SymDense_SetSym s r c v h = Inl ErrColAccess) \<and>
   (r < 0 \<or> r \<ge> N t \<longrightarrow>
      TriDense_At t r c h = Inl ErrRowAccess \<and> TriDense_SetTri t r c v h = Inl ErrRowAccess) \<and>
   (0 \<le> r \<and> r < N t \<and> (c < 0 \<or> c \<ge> N t) \<longrightarrow>
      TriDense_At t r c h = Inl ErrColAccess \<and> TriDense_SetTri t r c v h = Inl ErrColAccess)"
  by (auto simp: Dense_At_def Dense_Set_def Vector_At_def Vector_Set_def SymDense_At_def
      SymDense_SetSym_def TriDense_At_def TriDense_SetTri_def)

text \<open>
  The theorem at the two boundaries of 2\<times>2 views: the row index 2 (the dimension) and,
  with the row 0, the column index -1.
\<close>

theorem checked_access_out_of_range_witness:
  "Dense_At ex_dense 2 0 ex_mem = Inl ErrRowAccess \<and>
   Dense_Set ex_dense 2 0 (Fin 1) ex_mem = Inl ErrRowAccess \<and>
   Vector_At ex_vec 2 0 ex_mem = Inl ErrRowAccess \<and>
   Vector_Set ex_vec 2 0 (Fin 1) ex_mem = Inl ErrRowAccess \<and>
   SymDense_At ex_sym 2 0 ex_mem = Inl ErrRowAccess \<and>
   SymDense_SetSym ex_sym 2 0 (Fin 1) ex_mem = Inl ErrRowAccess \<and>
   TriDense_At (ex_tri Upper) 2 0 ex_mem = Inl ErrRowAccess \<and>
   TriDense_SetTri (ex_tri Upper) 2 0 (Fin 1) ex_mem = Inl ErrRowAccess \<and>
   Dense_At ex_dense 0 (- 1) ex_mem = Inl ErrColAccess \<and>
   Dense_Set ex_dense 0 (- 1) (Fin 1) ex_mem = Inl ErrColAccess \<and>
   Vector_At ex_vec 0 (- 1) ex_mem = Inl ErrColAccess \<and>
   Vector_Set ex_vec 0 (- 1) (Fin 1) ex_mem = Inl ErrColAccess \<and>
   SymDense_At ex_sym 0 (- 1) ex_mem = Inl ErrColAccess \<and>
   SymDense_SetSym ex_sym 0 (- 1) (Fin 1) ex_mem = Inl ErrColAccess \<and>
   TriDense_At (ex_tri Upper) 0 (- 1) ex_mem = Inl ErrColAccess \<and>
   TriDense_SetTri (ex_tri Upper) 0 (- 1) (Fin 1) ex_mem = Inl ErrColAccess"
proof -
  have dims: "Rows ex_dense = 2" "Cols ex_dense = 2" "Vector_n ex_vec = 2" "N ex_sym = 2"
    "N (ex_tri Upper) = 2"
    by (simp_all add: ex_dense_def ex_vec_def ex_sym_def ex_tri_def)
  show ?thesis
    using checked_access_out_of_range
            [of 2 ex_dense 0 ex_mem "Fin 1" ex_vec ex_sym "ex_tri Upper"]
          checked_access_out_of_range
            [of 0 ex_dense "- 1" ex_mem "Fin 1" ex_vec ex_sym "ex_tri Upper"]
    by (simp add: dims)
qed

text \<open>
  C5. In a triangular view of dimension \<open>N t\<close>, at an index pair in range on the
  inactive side of the diagonal (below it in an upper triangle, above it in a lower
  one), \<open>At\<close> returns 0 and does not panic, and \<open>SetTri\<close> panics with the message
  "mat64: triangular set out of bounds", which is neither the row nor the column
  violation.
\<close>

theorem TriDense_inactive_side:
  assumes "0 \<le> r" and "r < N t" and "0 \<le> c" and "c < N t"
    and "(Uplo t = Upper \<and> r > c) \<or> (Uplo t = Lower \<and> r < c)"
  shows "TriDense_At t r c h = Inr (Fin 0) \<and>
         TriDense_SetTri t r c v h = Inl (PanicStr ''mat64: triangular set out of bounds'') \<and>
         TriDense_SetTri t r c v h \<noteq> Inl ErrRowAccess \<and>
         TriDense_SetTri t r c v h \<noteq> Inl ErrColAccess"
  using assms by (auto simp: TriDense_At_def TriDense_at_def TriDense_SetTri_def)

text \<open>The index pair (1, 0) of an upper triangle and (0, 1) of a lower one, both 2\<times>2.\<close>

theorem TriDense_inactive_side_witness:
  "TriDense_At (ex_tri Upper) 1 0 ex_mem = Inr (Fin 0) \<and>
   TriDense_SetTri (ex_tri Upper) 1 0 (Fin 3) ex_mem =
     Inl (PanicStr ''mat64: triangular set out of bounds'') \<and>
   TriDense_At (ex_tri Lower) 0 1 ex_mem = Inr (Fin 0) \<and>
   TriDense_SetTri (ex_tri Lower) 0 1 (Fin 3) ex_mem =
     Inl (PanicStr ''mat64: triangular set out of bounds'')"
  using TriDense_inactive_side [of 1 "ex_tri Upper" 0 ex_mem "Fin 3"]
        TriDense_inactive_side [of 0 "ex_tri Lower" 1 ex_mem "Fin 3"]
  by (simp add: ex_tri_def)

text \<open>
  C6. In a symmetric view whose data holds all its elements (the stride is at least the
  dimension and the last element lies inside the slice), \<open>SetSym\<close> at an index pair in
  range writes the one cell of the pair (min, max), and afterwards \<open>At\<close> returns the
  value at \<open>(r, c)\<close> and at \<open>(c, r)\<close>.
\<close>

lemma sym_index_in_range:
  fixes r c :: int
  assumes "0 \<le> r" and "r \<le> c" and "c < cnt" and "cnt \<le> stride"
    and "(cnt - 1) * stride + cnt \<le> l"
  shows "0 \<le> r * stride + c \<and> r * stride + c < l"
proof -
  have "0 \<le> r * stride" using assms by simp
  moreover have "r * stride \<le> (cnt - 1) * stride"
    using assms by (intro mult_right_mono) auto
  ultimately show ?thesis using assms by linarith
qed

theorem SymDense_coherent:
  assumes "0 \<le> r" and "r < N s" and "0 \<le> c" and "c < N s"
    and "N s \<le> Stride s" and "(N s - 1) * Stride s + N s \<le> int (len (Data s))"
  shows "SymDense_SetSym s r c v h =
           Inr (h(ptr (Data s) + nat (min r c * Stride s + max r c) := v)) \<and>
         SymDense_At s r c (h(ptr (Data s) + nat (min r c * Stride s + max r c) := v)) = Inr v \<and>
         SymDense_At s c r (h(ptr (Data s) + nat (min r c * Stride s + max r c) := v)) = Inr v"
proof (cases "r \<le> c")
  case True
  from sym_index_in_range [OF assms(1) True assms(4) assms(5) assms(6)]
  show ?thesis using assms True
    by (auto simp: SymDense_SetSym_def SymDense_set_def SymDense_At_def SymDense_at_def
        index_write_def index_read_def min_def max_def)
next
  case False
  then have cr: "c \<le> r" by simp
  from sym_index_in_range [OF assms(3) cr assms(2) assms(5) assms(6)]
  show ?thesis using assms False
    by (auto simp: SymDense_SetSym_def SymDense_set_def SymDense_At_def SymDense_at_def
        index_write_def index_read_def min_def max_def)
qed

text \<open>Writing 9 at (1, 0) of the 2\<times>2 view: the cell 1 holds it, and both reads return it.\<close>

theorem SymDense_coherent_witness:
  "SymDense_SetSym ex_sym 1 0 (Fin 9) ex_mem = Inr (ex_mem(1 := Fin 9)) \<and>
   SymDense_At ex_sym 1 0 (ex_mem(1 := Fin 9)) = Inr (Fin 9) \<and>
   SymDense_At ex_sym 0 1 (ex_mem(1 := Fin 9)) = Inr (Fin 9)"
  using SymDense_coherent [of 1 ex_sym 0 "Fin 9" ex_mem]
  by (simp add: ex_sym_def)

section \<open>Properties of the factorization\<close>

declare upper_outer.simps [simp del] upper_pivots.simps [simp del] upper_inner.simps [simp del]
  lower_outer.simps [simp del] lower_pivots.simps [simp del] lower_inner.simps [simp del]

lemmas ex_defs = ex_mem_def ex_mem_indef_def ex_mem_nan_def ex_mem_inf_def mem_of_def ex_sym_def ex_tri_def
  ex_sym1_def ex_tri1_def ex_empty_def isZero_stride_def use_at_def

lemmas run_defs = Cholesky_def Cholesky_factor_def Cholesky_pivots_def Cholesky_factor_pivots_def
  allocated_def SymDense_Symmetric_def
  SymDense_at_def TriDense_at_def TriDense_set_def index_read_def index_write_def reslice_def
  DdotInc_def DdotUnitary_def math_Max_def TriDense_Reset_def
  upper_outer.simps upper_inner.simps upper_pivots.simps
  lower_outer.simps lower_inner.simps lower_pivots.simps
  exact_def exact_sub_def exact_div_def exact_mul_def is_inf_def is_zero_def signed_def

text \<open>A write through the view changes a cell of its slice and no other.\<close>

lemma TriDense_set_frame:
  assumes "TriDense_set t r c v h = Inr h'" and "x \<notin> cells (Data t)"
  shows "h' x = h x"
  using assms
  by (auto simp: TriDense_set_def index_write_def cells_def split: if_splits)

text \<open>
  The three facts about a run of the outer loop from column \<open>j\<close>: it returns false
  exactly when one of its diagonal candidates is \<open>\<le> 0\<close>; the header it leaves is the
  reset one after false and the old one otherwise; the memory outside the slice of \<open>t\<close>
  is untouched.
\<close>

lemma upper_inner_frame:
  "x \<notin> cells (Data t) \<Longrightarrow> snd (upper_inner ar t a mat stride j k d h) x = h x"
proof (induction ar t a mat stride j k d h rule: upper_inner.induct)
  case (1 ar t a mat stride j k d h)
  show ?case
    using 1 TriDense_set_frame [of t k j _ h _ x]
    by (simp add: upper_inner.simps [of ar t a mat stride j k d h] split: sum.splits)
qed

lemma upper_outer_run:
  "(fst (upper_outer ar t a mat stride cnt j h) = Inr False \<longleftrightarrow>
      (\<exists>d\<in>set (upper_pivots ar t a mat stride cnt j h). fle d (Fin 0))) \<and>
   fst (snd (upper_outer ar t a mat stride cnt j h)) =
      (if fst (upper_outer ar t a mat stride cnt j h) = Inr False then TriDense_Reset t else t) \<and>
   (\<forall>x. x \<notin> cells (Data t) \<longrightarrow> snd (snd (upper_outer ar t a mat stride cnt j h)) x = h x)"
proof (induction ar t a mat stride cnt j h rule: upper_outer.induct)
  case (1 ar t a mat stride cnt j h)
  note unf = upper_outer.simps [of ar t a mat stride cnt j h]
    upper_pivots.simps [of ar t a mat stride cnt j h]
  show ?case
  proof (cases "j < cnt")
    case False
    then show ?thesis by (simp add: unf)
  next
    case True
    obtain x h1 where inner: "upper_inner ar t a mat stride j 0 (Fin 0) h = (x, h1)"
      by (cases "upper_inner ar t a mat stride j 0 (Fin 0) h")
    have h1: "y \<notin> cells (Data t) \<Longrightarrow> h1 y = h y" for y
      using upper_inner_frame [of y t ar a mat stride j 0 "Fin 0" h] inner by simp
    show ?thesis
    proof (cases x)
      case (Inl e)
      then show ?thesis using True inner h1 by (simp add: unf)
    next
      case (Inr d0)
      show ?thesis
      proof (cases "SymDense_at a j j h1")
        case (Inl e)
        then show ?thesis using True inner Inr h1 by (simp add: unf)
      next
        case ajj: (Inr ajj)
        show ?thesis
        proof (cases "fle (fsub ar ajj d0) (Fin 0)")
          case neg: True
          then show ?thesis using True inner Inr ajj h1 by (simp add: unf)
        next
          case pos: False
          show ?thesis
          proof (cases "TriDense_set t j j (fsqrt ar (math_Max (fsub ar ajj d0) (Fin 0))) h1")
            case (Inl e)
            then show ?thesis using True inner Inr ajj pos h1 by (simp add: unf)
          next
            case h2: (Inr h2)
            have h2': "y \<notin> cells (Data t) \<Longrightarrow> h2 y = h y" for y
              using TriDense_set_frame [OF h2, of y] h1 [of y] by simp
            from "1.IH" [OF True inner [symmetric] Inr ajj pos h2]
            show ?thesis using True inner Inr ajj pos h2 h2' by (simp add: unf)
          qed
        qed
      qed
    qed
  qed
qed

lemma lower_inner_frame:
  "x \<notin> cells (Data t) \<Longrightarrow> snd (lower_inner ar t a mat stride j k d h) x = h x"
proof (induction ar t a mat stride j k d h rule: lower_inner.induct)
  case (1 ar t a mat stride j k d h)
  show ?case
    using 1 TriDense_set_frame [of t j k _ h _ x]
    by (simp add: lower_inner.simps [of ar t a mat stride j k d h] split: sum.splits)
qed

lemma lower_outer_run:
  "(fst (lower_outer ar t a mat stride cnt j h) = Inr False \<longleftrightarrow>
      (\<exists>d\<in>set (lower_pivots ar t a mat stride cnt j h). fle d (Fin 0))) \<and>
   fst (snd (lower_outer ar t a mat stride cnt j h)) =
      (if fst (lower_outer ar t a mat stride cnt j h) = Inr False then TriDense_Reset t else t) \<and>
   (\<forall>x. x \<notin> cells (Data t) \<longrightarrow> snd (snd (lower_outer ar t a mat stride cnt j h)) x = h x)"
proof (induction ar t a mat stride cnt j h rule: lower_outer.induct)
  case (1 ar t a mat stride cnt j h)
  note unf = lower_outer.simps [of ar t a mat stride cnt j h]
    lower_pivots.simps [of ar t a mat stride cnt j h]
  show ?case
  proof (cases "j < cnt")
    case False
    then show ?thesis by (simp add: unf)
  next
    case True
    obtain x h1 where inner: "lower_inner ar t a mat stride j 0 (Fin 0) h = (x, h1)"
      by (cases "lower_inner ar t a mat stride j 0 (Fin 0) h")
    have h1: "y \<notin> cells (Data t) \<Longrightarrow> h1 y = h y" for y
      using lower_inner_frame [of y t ar a mat stride j 0 "Fin 0" h] inner by simp
    show ?thesis
    proof (cases x)
      case (Inl e)
      then show ?thesis using True inner h1 by (simp add: unf)
    next
      case (Inr d0)
      show ?thesis
      proof (cases "SymDense_at a j j h1")
        case (Inl e)
        then show ?thesis using True inner Inr h1 by (simp add: unf)
      next
        case ajj: (Inr ajj)
        show ?thesis
        proof (cases "fle (fsub ar ajj d0) (Fin 0)")
          case neg: True
          then show ?thesis using True inner Inr ajj h1 by (simp add: unf)
        next
          case pos: False
          show ?thesis
          proof (cases "TriDense_set t j j (fsqrt ar (math_Max (fsub ar ajj d0) (Fin 0))) h1")
            case (Inl e)
            then show ?thesis using True inner Inr ajj pos h1 by (simp add: unf)
          next
            case h2: (Inr h2)
            have h2': "y \<notin> cells (Data t) \<Longrightarrow> h2 y = h y" for y
              using TriDense_set_frame [OF h2, of y] h1 [of y] by simp
            from "1.IH" [OF True inner [symmetric] Inr ajj pos h2]
            show ?thesis using True inner Inr ajj pos h2 h2' by (simp add: unf)
          qed
        qed
      qed
    qed
  qed
qed

lemma Cholesky_factor_run:
  "(fst (Cholesky_factor ar t a upper cnt h) = Inr False \<longleftrightarrow>
      (\<exists>d\<in>set (Cholesky_factor_pivots ar t a upper cnt h). fle d (Fin 0))) \<and>
   fst (snd (Cholesky_factor ar t a upper cnt h)) =
      (if fst (Cholesky_factor ar t a upper cnt h) = Inr False
       then TriDense_Reset (t\<lparr>Uplo := if upper then Upper else Lower\<rparr>)
       else t\<lparr>Uplo := if upper then Upper else Lower\<rparr>) \<and>
   (\<forall>x. x \<notin> cells (Data t) \<longrightarrow> snd (snd (Cholesky_factor ar t a upper cnt h)) x = h x)"
proof (cases upper)
  case True
  then show ?thesis
    using upper_outer_run [of ar "t\<lparr>Uplo := Upper\<rparr>" a "Data t" "Stride t" cnt 0 h]
    by (simp add: Cholesky_factor_def Cholesky_factor_pivots_def)
next
  case False
  then show ?thesis
    using lower_outer_run [of ar "t\<lparr>Uplo := Lower\<rparr>" a "Data t" "Stride t" cnt 0 h]
    by (simp add: Cholesky_factor_def Cholesky_factor_pivots_def)
qed

lemma max_guard:
  "\<not> fle d (Fin 0) \<Longrightarrow> math_Max d (Fin 0) = d \<and> (fgt d (Fin 0) \<or> d = NaN)"
  by (cases d) (simp_all add: math_Max_def)

lemma Reset_empty:
  "N (TriDense_Reset t) = 0 \<and> Stride (TriDense_Reset t) = 0 \<and>
   len (Data (TriDense_Reset t)) = 0 \<and> Uplo (TriDense_Reset t) = UploUnset \<and>
   TriDense_At (TriDense_Reset t) r c h = Inl ErrRowAccess \<and>
   index_read (Data (TriDense_Reset t)) i h = Inl RuntimeIndex"
  by (auto simp: TriDense_Reset_def TriDense_At_def index_read_def)

text \<open>
  C2. A call of \<open>Cholesky\<close> returns false if and only if one of the diagonal candidates
  \<open>d\<close> that it computes is \<open>\<le> 0\<close>, for both values of \<open>upper\<close>. When it returns false,
  the target is what \<open>Reset\<close> made of the view the columns were written to: its
  dimension and stride are 0, its slice has length 0 and its orientation is the zero
  value, so that \<open>At\<close> panics at every index pair and no element of the slice can be
  read: nothing of the partial factor is visible through the view.
\<close>

theorem Cholesky_fails_iff_nonpositive_pivot:
  "(fst (Cholesky ar isZero use t a upper h) = Inr False \<longleftrightarrow>
      (\<exists>d\<in>set (Cholesky_pivots ar isZero use t a upper h). fle d (Fin 0))) \<and>
   (fst (Cholesky ar isZero use t a upper h) = Inr False \<longrightarrow>
      fst (snd (Cholesky ar isZero use t a upper h)) =
        TriDense_Reset
          ((if isZero t
            then allocated (fst (use (Data t) (SymDense_Symmetric a * SymDense_Symmetric a) h))
                   (SymDense_Symmetric a)
            else t)\<lparr>Uplo := if upper then Upper else Lower\<rparr>) \<and>
      N (fst (snd (Cholesky ar isZero use t a upper h))) = 0 \<and>
      Stride (fst (snd (Cholesky ar isZero use t a upper h))) = 0 \<and>
      len (Data (fst (snd (Cholesky ar isZero use t a upper h)))) = 0 \<and>
      Uplo (fst (snd (Cholesky ar isZero use t a upper h))) = UploUnset \<and>
      (\<forall>r c h'. TriDense_At (fst (snd (Cholesky ar isZero use t a upper h))) r c h' =
                   Inl ErrRowAccess) \<and>
      (\<forall>i h'. index_read (Data (fst (snd (Cholesky ar isZero use t a upper h)))) i h' =
                   Inl RuntimeIndex))"
proof -
  let ?n = "SymDense_Symmetric a"
  let ?u = "use (Data t) (?n * ?n) h"
  consider (alloc) "isZero t" | (shape) "\<not> isZero t" "?n \<noteq> N t"
    | (reuse) "\<not> isZero t" "?n = N t"
    by blast
  then show ?thesis
  proof cases
    case alloc
    then show ?thesis
      using Cholesky_factor_run [of ar "allocated (fst ?u) ?n" a upper ?n "snd ?u"] Reset_empty
      by (simp add: Cholesky_def Cholesky_pivots_def)
  next
    case shape
    then show ?thesis by (simp add: Cholesky_def Cholesky_pivots_def)
  next
    case reuse
    then show ?thesis
      using Cholesky_factor_run [of ar t a upper ?n h] Reset_empty
      by (simp add: Cholesky_def Cholesky_pivots_def)
  qed
qed

text \<open>
  The matrix with the rows (4, 2) and (2, 1): the candidates are 4 and 0, the call
  returns false, and the view it leaves has the dimension 0.
\<close>

theorem Cholesky_fails_iff_nonpositive_pivot_witness:
  "Cholesky_pivots exact isZero_stride (use_at 100) (ex_tri UploUnset) ex_sym True ex_mem_indef
     = [Fin 4, Fin 0] \<and>
   fle (Fin 0) (Fin 0) \<and>
   fst (Cholesky exact isZero_stride (use_at 100) (ex_tri UploUnset) ex_sym True ex_mem_indef)
     = Inr False \<and>
   N (fst (snd (Cholesky exact isZero_stride (use_at 100) (ex_tri UploUnset) ex_sym True
                  ex_mem_indef))) = 0 \<and>
   TriDense_At (fst (snd (Cholesky exact isZero_stride (use_at 100) (ex_tri UploUnset) ex_sym
                            True ex_mem_indef))) 0 0 ex_mem_indef = Inl ErrRowAccess"
proof -
  have piv: "Cholesky_pivots exact isZero_stride (use_at 100) (ex_tri UploUnset) ex_sym True
               ex_mem_indef = [Fin 4, Fin 0]"
    by (simp add: ex_defs run_defs)
  then have ex: "\<exists>d\<in>set (Cholesky_pivots exact isZero_stride (use_at 100) (ex_tri UploUnset)
                             ex_sym True ex_mem_indef). fle d (Fin 0)"
    by simp
  note T = Cholesky_fails_iff_nonpositive_pivot
             [of exact isZero_stride "use_at 100" "ex_tri UploUnset" ex_sym True ex_mem_indef]
  from T ex
  have f: "fst (Cholesky exact isZero_stride (use_at 100) (ex_tri UploUnset) ex_sym True
                  ex_mem_indef) = Inr False"
    by blast
  from T f
  have n: "N (fst (snd (Cholesky exact isZero_stride (use_at 100) (ex_tri UploUnset) ex_sym True
                          ex_mem_indef))) = 0"
    by blast
  from T f
  have a: "\<forall>r c h'. TriDense_At (fst (snd (Cholesky exact isZero_stride (use_at 100)
                                            (ex_tri UploUnset) ex_sym True ex_mem_indef)))
                       r c h' = Inl ErrRowAccess"
    by blast
  show ?thesis using piv f n a by simp
qed

text \<open>
  C3. An empty target gets the header \<open>N = n\<close>, \<open>Stride = n\<close>, non-unit diagonal and the
  slice that \<open>use\<close> returns for the length \<open>n*n\<close>, where \<open>n\<close> is the dimension of the
  input, and the factorization runs on it. A target that is not empty and whose
  dimension differs from \<open>n\<close> makes the call panic with \<open>ErrShape\<close>, the target and the
  memory being as before the call. A target that is not empty and has the dimension
  \<open>n\<close> is used as it is: the factorization runs on its own header and slice, writes
  nowhere but into that slice, and on success leaves the header with the orientation
  set and nothing else changed.
\<close>

theorem Cholesky_target_shape:
  "(isZero t \<longrightarrow>
      Cholesky ar isZero use t a upper h =
        Cholesky_factor ar
          (allocated (fst (use (Data t) (SymDense_Symmetric a * SymDense_Symmetric a) h))
             (SymDense_Symmetric a))
          a upper (SymDense_Symmetric a)
          (snd (use (Data t) (SymDense_Symmetric a * SymDense_Symmetric a) h)) \<and>
      (fst (Cholesky ar isZero use t a upper h) = Inr True \<longrightarrow>
         fst (snd (Cholesky ar isZero use t a upper h)) =
           \<lparr>Data = fst (use (Data t) (SymDense_Symmetric a * SymDense_Symmetric a) h),
            Stride = SymDense_Symmetric a, N = SymDense_Symmetric a,
            Uplo = (if upper then Upper else Lower), Diag = NonUnit\<rparr>)) \<and>
   (\<not> isZero t \<and> N t \<noteq> SymDense_Symmetric a \<longrightarrow>
      Cholesky ar isZero use t a upper h = (Inl ErrShape, t, h)) \<and>
   (\<not> isZero t \<and> N t = SymDense_Symmetric a \<longrightarrow>
      Cholesky ar isZero use t a upper h = Cholesky_factor ar t a upper (N t) h \<and>
      (fst (Cholesky ar isZero use t a upper h) = Inr True \<longrightarrow>
         fst (snd (Cholesky ar isZero use t a upper h)) =
           t\<lparr>Uplo := if upper then Upper else Lower\<rparr>) \<and>
      (\<forall>x. x \<notin> cells (Data t) \<longrightarrow>
         snd (snd (Cholesky ar isZero use t a upper h)) x = h x))"
proof -
  let ?n = "SymDense_Symmetric a"
  let ?u = "use (Data t) (?n * ?n) h"
  show ?thesis
    using Cholesky_factor_run [of ar "allocated (fst ?u) ?n" a upper ?n "snd ?u"]
      Cholesky_factor_run [of ar t a upper ?n h]
    by (auto simp: Cholesky_def allocated_def)
qed

text \<open>
  The three cases: the empty view gets a 2\<times>2 header over a new slice; a 2\<times>2 view with a
  1\<times>1 input is the shape violation; a 2\<times>2 view with a 2\<times>2 input is reused.
\<close>

theorem Cholesky_target_shape_witness:
  "fst (Cholesky exact isZero_stride (use_at 100) ex_empty ex_sym True ex_mem) = Inr True \<and>
   fst (snd (Cholesky exact isZero_stride (use_at 100) ex_empty ex_sym True ex_mem)) =
     \<lparr>Data = \<lparr>ptr = 100, len = 4, cap = 4\<rparr>, Stride = 2, N = 2, Uplo = Upper, Diag = NonUnit\<rparr> \<and>
   Cholesky exact isZero_stride (use_at 100) (ex_tri UploUnset) ex_sym1 True ex_mem =
     (Inl ErrShape, ex_tri UploUnset, ex_mem) \<and>
   fst (Cholesky exact isZero_stride (use_at 100) (ex_tri UploUnset) ex_sym False ex_mem) =
     Inr True \<and>
   fst (snd (Cholesky exact isZero_stride (use_at 100) (ex_tri UploUnset) ex_sym False ex_mem)) =
     ex_tri Lower \<and>
   snd (snd (Cholesky exact isZero_stride (use_at 100) (ex_tri UploUnset) ex_sym False ex_mem)) 3 =
     Fin 5"
proof -
  have z: "isZero_stride ex_empty" "\<not> isZero_stride (ex_tri UploUnset)"
    by (simp_all add: isZero_stride_def ex_tri_def ex_empty_def)
  have d: "SymDense_Symmetric ex_sym = 2" "SymDense_Symmetric ex_sym1 = 1"
    "N (ex_tri UploUnset) = 2" "3 \<notin> cells (Data (ex_tri UploUnset))" "ex_mem 3 = Fin 5"
    "(ex_tri UploUnset)\<lparr>Uplo := Lower\<rparr> = ex_tri Lower"
    by (simp_all add: SymDense_Symmetric_def ex_sym_def ex_sym1_def ex_tri_def cells_def
        ex_mem_def mem_of_def)
  have u: "fst (use_at 100 (Data ex_empty) 4 ex_mem) = \<lparr>ptr = 100, len = 4, cap = 4\<rparr>"
    by (simp add: use_at_def ex_empty_def)
  have r1: "fst (Cholesky exact isZero_stride (use_at 100) ex_empty ex_sym True ex_mem) = Inr True"
    by (simp add: ex_defs run_defs)
  have r3: "fst (Cholesky exact isZero_stride (use_at 100) (ex_tri UploUnset) ex_sym False ex_mem)
              = Inr True"
    by (simp add: ex_defs run_defs)
  have p1: "isZero_stride ex_empty" by (rule z)
  have p2: "\<not> isZero_stride (ex_tri UploUnset) \<and> N (ex_tri UploUnset) \<noteq> SymDense_Symmetric ex_sym1"
    by (simp add: z d)
  have p3: "\<not> isZero_stride (ex_tri UploUnset) \<and> N (ex_tri UploUnset) = SymDense_Symmetric ex_sym"
    by (simp add: z d)
  note T1 = Cholesky_target_shape
              [of isZero_stride ex_empty exact "use_at 100" ex_sym True ex_mem,
               THEN conjunct1, rule_format, OF p1]
  note T2 = Cholesky_target_shape
              [of isZero_stride "ex_tri UploUnset" exact "use_at 100" ex_sym1 True ex_mem,
               THEN conjunct2, THEN conjunct1, rule_format, OF p2]
  note T3 = Cholesky_target_shape
              [of isZero_stride "ex_tri UploUnset" exact "use_at 100" ex_sym False ex_mem,
               THEN conjunct2, THEN conjunct2, rule_format, OF p3]
  have a1: "fst (snd (Cholesky exact isZero_stride (use_at 100) ex_empty ex_sym True ex_mem)) =
     \<lparr>Data = \<lparr>ptr = 100, len = 4, cap = 4\<rparr>, Stride = 2, N = 2, Uplo = Upper, Diag = NonUnit\<rparr>"
    using T1 [THEN conjunct2] r1 by (simp add: d u)
  have a3: "fst (snd (Cholesky exact isZero_stride (use_at 100) (ex_tri UploUnset) ex_sym False
                        ex_mem)) = ex_tri Lower"
    using T3 [THEN conjunct2, THEN conjunct1] r3 by (simp add: d)
  have a4: "snd (snd (Cholesky exact isZero_stride (use_at 100) (ex_tri UploUnset) ex_sym False
                        ex_mem)) 3 = Fin 5"
    using T3 [THEN conjunct2, THEN conjunct2] by (simp add: d)
  show ?thesis using r1 a1 T2 r3 a3 a4 by blast
qed

text \<open>
  C9. A call of \<open>Cholesky\<close> leaves every cell of the slice of the input as it was, on
  every path (true, false, or a panic), for both values of \<open>upper\<close>. The statement is
  for views that own their storage, as the data model has it: the slice of a target
  that is not empty shares no cell with the slice of the input, and for an empty target
  \<open>use\<close> returns a slice that shares no cell with it and leaves its cells as they are.
\<close>

theorem Cholesky_leaves_input:
  assumes "\<not> isZero t \<Longrightarrow> cells (Data t) \<inter> cells (Data a) = {}"
    and "isZero t \<Longrightarrow>
           cells (fst (use (Data t) (SymDense_Symmetric a * SymDense_Symmetric a) h))
             \<inter> cells (Data a) = {} \<and>
           (\<forall>x\<in>cells (Data a).
              snd (use (Data t) (SymDense_Symmetric a * SymDense_Symmetric a) h) x = h x)"
  shows "\<forall>x\<in>cells (Data a). snd (snd (Cholesky ar isZero use t a upper h)) x = h x"
proof
  fix x assume x: "x \<in> cells (Data a)"
  let ?n = "SymDense_Symmetric a"
  let ?u = "use (Data t) (?n * ?n) h"
  consider (alloc) "isZero t" | (shape) "\<not> isZero t" "?n \<noteq> N t"
    | (reuse) "\<not> isZero t" "?n = N t"
    by blast
  then show "snd (snd (Cholesky ar isZero use t a upper h)) x = h x"
  proof cases
    case alloc
    from assms(2) [OF alloc] x have "x \<notin> cells (fst ?u)" and "snd ?u x = h x" by auto
    then show ?thesis
      using alloc Cholesky_factor_run [of ar "allocated (fst ?u) ?n" a upper ?n "snd ?u"]
      by (simp add: Cholesky_def allocated_def)
  next
    case shape
    then show ?thesis by (simp add: Cholesky_def)
  next
    case reuse
    from assms(1) [OF reuse(1)] x have "x \<notin> cells (Data t)" by auto
    then show ?thesis
      using reuse Cholesky_factor_run [of ar t a upper ?n h]
      by (simp add: Cholesky_def)
  qed
qed

text \<open>
  The input in the cells 0 to 3 and the target in the cells 4 to 7 (or newly made at the
  address 100): the four cells of the input after a call that returns true, one of them
  after a call on an empty target and after a call that returns false.
\<close>

theorem Cholesky_leaves_input_witness:
  "snd (snd (Cholesky exact isZero_stride (use_at 100) (ex_tri UploUnset) ex_sym False ex_mem)) 0
     = Fin 4 \<and>
   snd (snd (Cholesky exact isZero_stride (use_at 100) (ex_tri UploUnset) ex_sym False ex_mem)) 1
     = Fin 2 \<and>
   snd (snd (Cholesky exact isZero_stride (use_at 100) (ex_tri UploUnset) ex_sym False ex_mem)) 2
     = Fin 2 \<and>
   snd (snd (Cholesky exact isZero_stride (use_at 100) (ex_tri UploUnset) ex_sym False ex_mem)) 3
     = Fin 5 \<and>
   snd (snd (Cholesky exact isZero_stride (use_at 100) ex_empty ex_sym True ex_mem)) 3
     = Fin 5 \<and>
   snd (snd (Cholesky exact isZero_stride (use_at 100) (ex_tri UploUnset) ex_sym True
               ex_mem_indef)) 3 = Fin 1"
proof -
  have c: "cells (Data ex_sym) = {0..<4}" "cells (Data (ex_tri UploUnset)) = {4..<8}"
    by (simp_all add: cells_def ex_sym_def ex_tri_def)
  have z: "\<not> isZero_stride (ex_tri UploUnset)" "isZero_stride ex_empty"
    by (simp_all add: isZero_stride_def ex_tri_def ex_empty_def)
  have u: "cells (fst (use_at 100 (Data ex_empty)
                        (SymDense_Symmetric ex_sym * SymDense_Symmetric ex_sym) ex_mem))
             \<inter> cells (Data ex_sym) = {} \<and>
           (\<forall>x\<in>cells (Data ex_sym).
              snd (use_at 100 (Data ex_empty)
                     (SymDense_Symmetric ex_sym * SymDense_Symmetric ex_sym) ex_mem) x = ex_mem x)"
    by (simp add: cells_def use_at_def ex_empty_def ex_sym_def SymDense_Symmetric_def)
  have m: "ex_mem 0 = Fin 4" "ex_mem (Suc 0) = Fin 2" "ex_mem 2 = Fin 2" "ex_mem 3 = Fin 5"
    "ex_mem_indef 3 = Fin 1"
    by (simp_all add: ex_mem_def ex_mem_indef_def mem_of_def)
  show ?thesis
    using Cholesky_leaves_input
            [of isZero_stride "ex_tri UploUnset" ex_sym "use_at 100" ex_mem exact False]
          Cholesky_leaves_input
            [of isZero_stride ex_empty ex_sym "use_at 100" ex_mem exact True, OF _ u]
          Cholesky_leaves_input
            [of isZero_stride "ex_tri UploUnset" ex_sym "use_at 100" ex_mem_indef exact True]
    by (simp add: c z m)
qed

text \<open>
  C10, as it is stated, fails: the check \<open>d <= 0\<close> is false for a NaN, so a NaN reaches
  the square root, and \<open>d > 0\<close> does not hold for it. On the 1\<times>1 matrix whose element is
  NaN the only diagonal candidate is NaN, and the call returns true, in both branches.
  On the 2\<times>2 matrix whose elements are all \<open>+Inf\<close> the second candidate is NaN
  (\<open>Inf / Inf\<close> in the inner loop), and the call returns true as well.
\<close>

theorem sqrt_guard_counterexample:
  "Cholesky_pivots exact isZero_stride (use_at 100) (ex_tri1 UploUnset) ex_sym1 True ex_mem_nan
     = [NaN] \<and>
   Cholesky exact isZero_stride (use_at 100) (ex_tri1 UploUnset) ex_sym1 True ex_mem_nan
     = (Inr True, ex_tri1 Upper, ex_mem_nan(1 := NaN)) \<and>
   Cholesky_pivots exact isZero_stride (use_at 100) (ex_tri1 UploUnset) ex_sym1 False ex_mem_nan
     = [NaN] \<and>
   Cholesky exact isZero_stride (use_at 100) (ex_tri1 UploUnset) ex_sym1 False ex_mem_nan
     = (Inr True, ex_tri1 Lower, ex_mem_nan(1 := NaN)) \<and>
   Cholesky_pivots exact isZero_stride (use_at 100) (ex_tri UploUnset) ex_sym True ex_mem_inf
     = [PInf, NaN] \<and>
   fst (Cholesky exact isZero_stride (use_at 100) (ex_tri UploUnset) ex_sym True ex_mem_inf)
     = Inr True \<and>
   \<not> fle NaN (Fin 0) \<and> \<not> fgt NaN (Fin 0)"
  by (simp add: ex_defs run_defs)

text \<open>
  C10, amended. Where the square root is evaluated, \<open>d <= 0\<close> is false, so \<open>d\<close> is
  greater than 0 or is NaN, and in both cases \<open>math.Max(d, 0)\<close> is \<open>d\<close>: the guard never
  changes the value passed to the square root. Both loops satisfy the equation of their
  definition with \<open>sqrt(d)\<close> in the place of \<open>sqrt(max(d, 0))\<close>.
\<close>

theorem sqrt_guard_never_clamps:
  "(\<not> fle d (Fin 0) \<longrightarrow> math_Max d (Fin 0) = d \<and> (fgt d (Fin 0) \<or> d = NaN)) \<and>
   upper_outer ar t a mat stride cnt j h =
     (if j < cnt then
        (case upper_inner ar t a mat stride j 0 (Fin 0) h of
           (Inl e, h1) \<Rightarrow> (Inl e, t, h1)
         | (Inr d0, h1) \<Rightarrow>
            (case SymDense_at a j j h1 of
               Inl e \<Rightarrow> (Inl e, t, h1)
             | Inr ajj \<Rightarrow>
                if fle (fsub ar ajj d0) (Fin 0) then (Inr False, TriDense_Reset t, h1)
                else
                  (case TriDense_set t j j (fsqrt ar (fsub ar ajj d0)) h1 of
                     Inl e \<Rightarrow> (Inl e, t, h1)
                   | Inr h2 \<Rightarrow> upper_outer ar t a mat stride cnt (j + 1) h2)))
      else (Inr True, t, h)) \<and>
   lower_outer ar t a mat stride cnt j h =
     (if j < cnt then
        (case lower_inner ar t a mat stride j 0 (Fin 0) h of
           (Inl e, h1) \<Rightarrow> (Inl e, t, h1)
         | (Inr d0, h1) \<Rightarrow>
            (case SymDense_at a j j h1 of
               Inl e \<Rightarrow> (Inl e, t, h1)
             | Inr ajj \<Rightarrow>
                if fle (fsub ar ajj d0) (Fin 0) then (Inr False, TriDense_Reset t, h1)
                else
                  (case TriDense_set t j j (fsqrt ar (fsub ar ajj d0)) h1 of
                     Inl e \<Rightarrow> (Inl e, t, h1)
                   | Inr h2 \<Rightarrow> lower_outer ar t a mat stride cnt (j + 1) h2)))
      else (Inr True, t, h))"
proof (intro conjI)
  show "\<not> fle d (Fin 0) \<longrightarrow> math_Max d (Fin 0) = d \<and> (fgt d (Fin 0) \<or> d = NaN)"
    using max_guard by blast
next
  show "upper_outer ar t a mat stride cnt j h =
     (if j < cnt then
        (case upper_inner ar t a mat stride j 0 (Fin 0) h of
           (Inl e, h1) \<Rightarrow> (Inl e, t, h1)
         | (Inr d0, h1) \<Rightarrow>
            (case SymDense_at a j j h1 of
               Inl e \<Rightarrow> (Inl e, t, h1)
             | Inr ajj \<Rightarrow>
                if fle (fsub ar ajj d0) (Fin 0) then (Inr False, TriDense_Reset t, h1)
                else
                  (case TriDense_set t j j (fsqrt ar (fsub ar ajj d0)) h1 of
                     Inl e \<Rightarrow> (Inl e, t, h1)
                   | Inr h2 \<Rightarrow> upper_outer ar t a mat stride cnt (j + 1) h2)))
      else (Inr True, t, h))"
    by (simp add: upper_outer.simps [of ar t a mat stride cnt j h] max_guard
        split: prod.splits sum.splits)
next
  show "lower_outer ar t a mat stride cnt j h =
     (if j < cnt then
        (case lower_inner ar t a mat stride j 0 (Fin 0) h of
           (Inl e, h1) \<Rightarrow> (Inl e, t, h1)
         | (Inr d0, h1) \<Rightarrow>
            (case SymDense_at a j j h1 of
               Inl e \<Rightarrow> (Inl e, t, h1)
             | Inr ajj \<Rightarrow>
                if fle (fsub ar ajj d0) (Fin 0) then (Inr False, TriDense_Reset t, h1)
                else
                  (case TriDense_set t j j (fsqrt ar (fsub ar ajj d0)) h1 of
                     Inl e \<Rightarrow> (Inl e, t, h1)
                   | Inr h2 \<Rightarrow> lower_outer ar t a mat stride cnt (j + 1) h2)))
      else (Inr True, t, h))"
    by (simp add: lower_outer.simps [of ar t a mat stride cnt j h] max_guard
        split: prod.splits sum.splits)
qed

theorem sqrt_guard_never_clamps_witness:
  "\<not> fle (Fin 4) (Fin 0) \<and> math_Max (Fin 4) (Fin 0) = Fin 4 \<and> fgt (Fin 4) (Fin 0) \<and>
   \<not> fle NaN (Fin 0) \<and> math_Max NaN (Fin 0) = NaN \<and>
   \<not> fle PInf (Fin 0) \<and> math_Max PInf (Fin 0) = PInf \<and> fgt PInf (Fin 0)"
  using sqrt_guard_never_clamps [of "Fin 4"] sqrt_guard_never_clamps [of NaN]
    sqrt_guard_never_clamps [of PInf]
  by simp



section \<open>Properties of the solvers\<close>

lemmas solve_defs = SolveCholesky_def SolveTri_def and_then_def invoke_def
  ex_world_def ex_deps_def ex_dense_def ex_tri_def badTriangle_def

lemma and_then_Inr:
  "fst (and_then r f) = Inr () \<Longrightarrow>
   \<exists>w cs. r = (Inr (), w, cs) \<and> and_then r f = f w cs"
  by (cases r) (auto simp: and_then_def split: sum.splits)

lemma invoke_Inr:
  "invoke E c w cs = (Inr (), w', cs') \<longleftrightarrow> effect E c w = Inr w' \<and> cs' = cs @ [c]"
  by (auto simp: invoke_def split: sum.splits)

lemma and_then_run:
  assumes "fst (and_then r f) = Inr ()"
  obtains w cs where "r = (Inr (), w, cs)" and "and_then r f = f w cs"
  using assms and_then_Inr [of r f] by blast

text \<open>
  C4. A call of \<open>SolveCholesky\<close> that returns normally has made these calls, in this
  order: \<open>reuseAs\<close>; \<open>Copy\<close> of \<open>b\<close> into \<open>m\<close> unless \<open>b\<close> is the pointer \<open>m\<close> itself (a
  \<open>Dense\<close> at another address is copied whatever its contents are); and two calls of
  \<open>Trsm\<close> on the left with the factor 1, the operand \<open>ta\<close> and the struct of \<open>m\<close>: for an
  upper factor the transposed solve and then the plain one, for a lower factor the
  plain solve and then the transposed one. Each call starts in the state the previous
  one left, and the second solve leaves the final state.
\<close>

theorem SolveCholesky_calls:
  assumes "fst (SolveCholesky E m t b w) = Inr ()"
  shows "\<exists>w1 w2 w3 ta.
           effect E (ReuseAs m (fst (Matrix_Dims E b w)) (snd (Matrix_Dims E b w))) w = Inr w1 \<and>
           (if b = DenseAt m then w2 = w1 else effect E (Copy m b) w1 = Inr w2) \<and>
           ta = getBlasTriangular E t w2 \<and>
           (Uplo ta = Upper \<or> Uplo ta = Lower) \<and>
           effect E (Trsm Left (if Uplo ta = Upper then Trans else NoTrans) (Fin 1) ta
                       (dense w2 m)) w2 = Inr w3 \<and>
           effect E (Trsm Left (if Uplo ta = Upper then NoTrans else Trans) (Fin 1) ta
                       (dense w3 m)) w3 = Inr (fst (snd (SolveCholesky E m t b w))) \<and>
           snd (snd (SolveCholesky E m t b w)) =
             [ReuseAs m (fst (Matrix_Dims E b w)) (snd (Matrix_Dims E b w))] @
             (if b = DenseAt m then [] else [Copy m b]) @
             [Trsm Left (if Uplo ta = Upper then Trans else NoTrans) (Fin 1) ta (dense w2 m),
              Trsm Left (if Uplo ta = Upper then NoTrans else Trans) (Fin 1) ta (dense w3 m)]"
proof -
  let ?R = "SolveCholesky E m t b w"
  let ?c1 = "ReuseAs m (fst (Matrix_Dims E b w)) (snd (Matrix_Dims E b w))"
  define up2 where
    "up2 = (\<lambda>ta w3 cs3. invoke E (Trsm Left NoTrans (Fin 1) ta (dense w3 m)) w3 cs3)"
  define lo2 where
    "lo2 = (\<lambda>ta w3 cs3. invoke E (Trsm Left Trans (Fin 1) ta (dense w3 m)) w3 cs3)"
  define solve where "solve = (\<lambda>w2 cs2.
      (case Uplo (getBlasTriangular E t w2) of
         Upper \<Rightarrow>
           and_then (invoke E (Trsm Left Trans (Fin 1) (getBlasTriangular E t w2) (dense w2 m))
                       w2 cs2)
             (up2 (getBlasTriangular E t w2))
       | Lower \<Rightarrow>
           and_then (invoke E (Trsm Left NoTrans (Fin 1) (getBlasTriangular E t w2) (dense w2 m))
                       w2 cs2)
             (lo2 (getBlasTriangular E t w2))
       | _ \<Rightarrow> (Inl (PanicStr badTriangle), w2, cs2)))"
  define copy where "copy = (\<lambda>w1 cs1.
      and_then (if b \<noteq> DenseAt m then invoke E (Copy m b) w1 cs1 else (Inr (), w1, cs1))
        solve)"
  from assms have rows: "snd (Triangular_Dims E t w) = fst (Matrix_Dims E b w)"
    by (auto simp: SolveCholesky_def split: if_splits)
  have R: "?R = and_then (invoke E ?c1 w []) copy"
    unfolding copy_def solve_def up2_def lo2_def SolveCholesky_def using rows by simp
  from assms have "fst (and_then (invoke E ?c1 w []) copy) = Inr ()"
    unfolding R .
  then obtain w1 cs1 where i1: "invoke E ?c1 w [] = (Inr (), w1, cs1)"
    and R1': "and_then (invoke E ?c1 w []) copy = copy w1 cs1"
    by (rule and_then_run)
  from R R1' have R1: "?R = copy w1 cs1" by simp
  from i1 have e1: "effect E ?c1 w = Inr w1" and cs1: "cs1 = [?c1]"
    by (simp_all add: invoke_Inr)
  let ?r2 = "if b \<noteq> DenseAt m then invoke E (Copy m b) w1 cs1 else (Inr (), w1, cs1)"
  from assms have "fst (and_then ?r2 solve) = Inr ()"
    unfolding R1 copy_def .
  then obtain w2 cs2 where i2: "?r2 = (Inr (), w2, cs2)"
    and R2': "and_then ?r2 solve = solve w2 cs2"
    by (rule and_then_run)
  from R1 R2' have R2: "?R = solve w2 cs2" by (simp add: copy_def)
  from i2 have e2: "if b = DenseAt m then w2 = w1 else effect E (Copy m b) w1 = Inr w2"
    and cs2: "cs2 = cs1 @ (if b = DenseAt m then [] else [Copy m b])"
    by (simp_all add: invoke_Inr split: if_splits)
  define ta where "ta = getBlasTriangular E t w2"
  show ?thesis
  proof (cases "Uplo ta")
    case Upper
    let ?c3 = "Trsm Left Trans (Fin 1) ta (dense w2 m)"
    from R2 Upper have R3: "?R = and_then (invoke E ?c3 w2 cs2) (up2 ta)"
      by (simp add: solve_def ta_def)
    from assms have "fst (and_then (invoke E ?c3 w2 cs2) (up2 ta)) = Inr ()"
      unfolding R3 .
    then obtain w3 cs3 where i3: "invoke E ?c3 w2 cs2 = (Inr (), w3, cs3)"
      and R4': "and_then (invoke E ?c3 w2 cs2) (up2 ta) = up2 ta w3 cs3"
      by (rule and_then_run)
    let ?c4 = "Trsm Left NoTrans (Fin 1) ta (dense w3 m)"
    from R3 R4' have R4: "?R = invoke E ?c4 w3 cs3" by (simp add: up2_def)
    from i3 have e3: "effect E ?c3 w2 = Inr w3" and cs3: "cs3 = cs2 @ [?c3]"
      by (simp_all add: invoke_Inr)
    from assms have "fst (invoke E ?c4 w3 cs3) = Inr ()" unfolding R4 .
    then have e4: "effect E ?c4 w3 = Inr (fst (snd (invoke E ?c4 w3 cs3)))"
      and cs4: "snd (snd (invoke E ?c4 w3 cs3)) = cs3 @ [?c4]"
      by (simp_all add: invoke_def split: sum.splits)
    show ?thesis
      apply (rule exI [of _ w1], rule exI [of _ w2], rule exI [of _ w3], rule exI [of _ ta])
      unfolding R4 using e1 e2 e3 e4 cs1 cs2 cs3 cs4 Upper ta_def by simp
  next
    case Lower
    let ?c3 = "Trsm Left NoTrans (Fin 1) ta (dense w2 m)"
    from R2 Lower have R3: "?R = and_then (invoke E ?c3 w2 cs2) (lo2 ta)"
      by (simp add: solve_def ta_def)
    from assms have "fst (and_then (invoke E ?c3 w2 cs2) (lo2 ta)) = Inr ()"
      unfolding R3 .
    then obtain w3 cs3 where i3: "invoke E ?c3 w2 cs2 = (Inr (), w3, cs3)"
      and R4': "and_then (invoke E ?c3 w2 cs2) (lo2 ta) = lo2 ta w3 cs3"
      by (rule and_then_run)
    let ?c4 = "Trsm Left Trans (Fin 1) ta (dense w3 m)"
    from R3 R4' have R4: "?R = invoke E ?c4 w3 cs3" by (simp add: lo2_def)
    from i3 have e3: "effect E ?c3 w2 = Inr w3" and cs3: "cs3 = cs2 @ [?c3]"
      by (simp_all add: invoke_Inr)
    from assms have "fst (invoke E ?c4 w3 cs3) = Inr ()" unfolding R4 .
    then have e4: "effect E ?c4 w3 = Inr (fst (snd (invoke E ?c4 w3 cs3)))"
      and cs4: "snd (snd (invoke E ?c4 w3 cs3)) = cs3 @ [?c4]"
      by (simp_all add: invoke_def split: sum.splits)
    show ?thesis
      apply (rule exI [of _ w1], rule exI [of _ w2], rule exI [of _ w3], rule exI [of _ ta])
      unfolding R4 using e1 e2 e3 e4 cs1 cs2 cs3 cs4 Lower ta_def by simp
  next
    case UploUnset
    with R2 assms show ?thesis by (simp add: solve_def ta_def)
  next
    case UploAll
    with R2 assms show ?thesis by (simp add: solve_def ta_def)
  qed
qed

text \<open>
  With \<open>b\<close> the pointer \<open>m\<close> and an upper factor there is no \<open>Copy\<close>; with \<open>b\<close> another
  \<open>Dense\<close>, which here wraps the same struct as \<open>m\<close>, and a lower factor there is one.
\<close>

theorem SolveCholesky_calls_witness:
  "snd (snd (SolveCholesky ex_deps 0 (ex_tri Upper) (DenseAt 0) ex_world)) =
     [ReuseAs 0 2 2,
      Trsm Left Trans (Fin 1) (ex_tri Upper) ex_dense,
      Trsm Left NoTrans (Fin 1) (ex_tri Upper) ex_dense] \<and>
   dense ex_world 1 = dense ex_world 0 \<and>
   snd (snd (SolveCholesky ex_deps 0 (ex_tri Lower) (DenseAt 1) ex_world)) =
     [ReuseAs 0 2 2,
      Copy 0 (DenseAt 1),
      Trsm Left NoTrans (Fin 1) (ex_tri Lower) ex_dense,
      Trsm Left Trans (Fin 1) (ex_tri Lower) ex_dense]"
proof -
  have r: "fst (SolveCholesky ex_deps 0 (ex_tri Upper) (DenseAt 0) ex_world) = Inr ()"
    "fst (SolveCholesky ex_deps 0 (ex_tri Lower) (DenseAt 1) ex_world) = Inr ()"
    by (simp_all add: solve_defs)
  have e: "effect ex_deps c w = Inr w' \<longleftrightarrow> w' = w" for c w w'
    by (auto simp: ex_deps_def)
  have d: "Matrix_Dims ex_deps (DenseAt p) ex_world = (2, 2)" "dense ex_world p = ex_dense"
    "Uplo (ex_tri ul) = ul" "getBlasTriangular ex_deps (ex_tri ul) w = ex_tri ul"
    for p ul w
    by (simp_all add: ex_deps_def ex_world_def ex_dense_def ex_tri_def)
  show ?thesis
    using SolveCholesky_calls [OF r(1)] SolveCholesky_calls [OF r(2)]
    by (auto simp: e d)
qed

lemma and_then_panics:
  assumes "\<And>w cs. \<exists>e. fst (f w cs) = Inl e"
  shows "\<exists>e. fst (and_then r f) = Inl e"
proof (cases r)
  case (fields x w cs)
  then show ?thesis using assms [of w cs] by (cases x) (simp_all add: and_then_def)
qed

text \<open>
  C7. Both solvers panic with \<open>ErrShape\<close>, before any call and with the state unchanged,
  when the row count of \<open>b\<close> differs from the dimension of the triangular operand. When
  the orientation tag of the operand is neither upper nor lower, both solvers end in a
  panic; and when the shapes agree and \<open>reuseAs\<close> and \<open>Copy\<close> return, the panic is
  "mat64: invalid triangle", in the state that these two calls left.
\<close>

theorem solvers_validate:
  "(snd (Triangular_Dims E t w) \<noteq> fst (Matrix_Dims E b w) \<longrightarrow>
      SolveCholesky E m t b w = (Inl ErrShape, w, [])) \<and>
   (fst (Triangular_Triangle E t w) \<noteq> fst (Matrix_Dims E b w) \<longrightarrow>
      SolveTri E m t tr b w = (Inl ErrShape, w, [])) \<and>
   ((\<forall>w'. Uplo (getBlasTriangular E t w') \<noteq> Upper \<and> Uplo (getBlasTriangular E t w') \<noteq> Lower) \<longrightarrow>
      (\<exists>e. fst (SolveCholesky E m t b w) = Inl e) \<and>
      (\<exists>e. fst (SolveTri E m t tr b w) = Inl e)) \<and>
   (snd (Triangular_Dims E t w) = fst (Matrix_Dims E b w) \<and>
    fst (Triangular_Triangle E t w) = fst (Matrix_Dims E b w) \<and>
    effect E (ReuseAs m (fst (Matrix_Dims E b w)) (snd (Matrix_Dims E b w))) w = Inr w1 \<and>
    (if b = DenseAt m then w2 = w1 else effect E (Copy m b) w1 = Inr w2) \<and>
    Uplo (getBlasTriangular E t w2) \<noteq> Upper \<and> Uplo (getBlasTriangular E t w2) \<noteq> Lower \<longrightarrow>
      fst (SolveCholesky E m t b w) = Inl (PanicStr ''mat64: invalid triangle'') \<and>
      fst (SolveTri E m t tr b w) = Inl (PanicStr ''mat64: invalid triangle'') \<and>
      fst (snd (SolveCholesky E m t b w)) = w2 \<and>
      fst (snd (SolveTri E m t tr b w)) = w2)"
proof (intro conjI impI)
  assume "snd (Triangular_Dims E t w) \<noteq> fst (Matrix_Dims E b w)"
  then show "SolveCholesky E m t b w = (Inl ErrShape, w, [])"
    by (simp add: SolveCholesky_def)
next
  assume "fst (Triangular_Triangle E t w) \<noteq> fst (Matrix_Dims E b w)"
  then show "SolveTri E m t tr b w = (Inl ErrShape, w, [])"
    by (simp add: SolveTri_def)
next
  assume bad: "\<forall>w'. Uplo (getBlasTriangular E t w') \<noteq> Upper \<and>
                     Uplo (getBlasTriangular E t w') \<noteq> Lower"
  then have u: "Uplo (getBlasTriangular E t w') = UploUnset \<or>
                Uplo (getBlasTriangular E t w') = UploAll" for w'
    by (cases "Uplo (getBlasTriangular E t w')") simp_all
  have tail: "\<exists>e. fst (case Uplo (getBlasTriangular E t w') of
                          Upper \<Rightarrow> f | Lower \<Rightarrow> g
                        | _ \<Rightarrow> (Inl (PanicStr badTriangle), w', cs')) = Inl e"
    for w' cs' and f g :: run
    using u [of w'] by auto
  show "\<exists>e. fst (SolveCholesky E m t b w) = Inl e"
    unfolding SolveCholesky_def
    by (auto intro!: and_then_panics tail)
  show "\<exists>e. fst (SolveTri E m t tr b w) = Inl e"
    unfolding SolveTri_def
    by (auto intro!: and_then_panics tail)
next
  assume ok: "snd (Triangular_Dims E t w) = fst (Matrix_Dims E b w) \<and>
    fst (Triangular_Triangle E t w) = fst (Matrix_Dims E b w) \<and>
    effect E (ReuseAs m (fst (Matrix_Dims E b w)) (snd (Matrix_Dims E b w))) w = Inr w1 \<and>
    (if b = DenseAt m then w2 = w1 else effect E (Copy m b) w1 = Inr w2) \<and>
    Uplo (getBlasTriangular E t w2) \<noteq> Upper \<and> Uplo (getBlasTriangular E t w2) \<noteq> Lower"
  then have u: "Uplo (getBlasTriangular E t w2) = UploUnset \<or>
                Uplo (getBlasTriangular E t w2) = UploAll"
    by (cases "Uplo (getBlasTriangular E t w2)") simp_all
  show "fst (SolveCholesky E m t b w) = Inl (PanicStr ''mat64: invalid triangle'')"
    using u ok
    by (auto simp: SolveCholesky_def and_then_def invoke_def badTriangle_def split: if_splits)
  show "fst (SolveTri E m t tr b w) = Inl (PanicStr ''mat64: invalid triangle'')"
    using u ok
    by (auto simp: SolveTri_def and_then_def invoke_def badTriangle_def split: if_splits)
  show "fst (snd (SolveCholesky E m t b w)) = w2"
    using u ok
    by (auto simp: SolveCholesky_def and_then_def invoke_def badTriangle_def split: if_splits)
  show "fst (snd (SolveTri E m t tr b w)) = w2"
    using u ok
    by (auto simp: SolveTri_def and_then_def invoke_def badTriangle_def split: if_splits)
qed

text \<open>
  A right-hand side with 3 rows for a 2\<times>2 triangle, and a 2\<times>2 triangle whose orientation
  is the zero value.
\<close>

theorem solvers_validate_witness:
  "SolveCholesky ex_deps 0 (ex_tri Upper) (Foreign 7) ex_world = (Inl ErrShape, ex_world, []) \<and>
   SolveTri ex_deps 0 (ex_tri Upper) False (Foreign 7) ex_world = (Inl ErrShape, ex_world, []) \<and>
   fst (SolveCholesky ex_deps 0 (ex_tri UploUnset) (DenseAt 1) ex_world) =
     Inl (PanicStr ''mat64: invalid triangle'') \<and>
   fst (SolveTri ex_deps 0 (ex_tri UploUnset) True (DenseAt 1) ex_world) =
     Inl (PanicStr ''mat64: invalid triangle'')"
proof -
  have d: "snd (Triangular_Dims ex_deps (ex_tri Upper) ex_world)
             \<noteq> fst (Matrix_Dims ex_deps (Foreign 7) ex_world)"
    "fst (Triangular_Triangle ex_deps (ex_tri Upper) ex_world)
             \<noteq> fst (Matrix_Dims ex_deps (Foreign 7) ex_world)"
    by (simp_all add: ex_deps_def ex_tri_def)
  have ok: "snd (Triangular_Dims ex_deps (ex_tri UploUnset) ex_world)
              = fst (Matrix_Dims ex_deps (DenseAt 1) ex_world) \<and>
       fst (Triangular_Triangle ex_deps (ex_tri UploUnset) ex_world)
              = fst (Matrix_Dims ex_deps (DenseAt 1) ex_world) \<and>
       effect ex_deps (ReuseAs 0 (fst (Matrix_Dims ex_deps (DenseAt 1) ex_world))
                  (snd (Matrix_Dims ex_deps (DenseAt 1) ex_world))) ex_world = Inr ex_world \<and>
       (if DenseAt 1 = DenseAt 0 then ex_world = ex_world
        else effect ex_deps (Copy 0 (DenseAt 1)) ex_world = Inr ex_world) \<and>
       Uplo (getBlasTriangular ex_deps (ex_tri UploUnset) ex_world) \<noteq> Upper \<and>
       Uplo (getBlasTriangular ex_deps (ex_tri UploUnset) ex_world) \<noteq> Lower"
    by (simp add: ex_deps_def ex_tri_def ex_world_def ex_dense_def)
  note V1 = solvers_validate
              [of ex_deps "ex_tri Upper" ex_world "Foreign 7" 0 False ex_world ex_world]
  note V2 = solvers_validate
              [of ex_deps "ex_tri UploUnset" ex_world "DenseAt 1" 0 True ex_world ex_world]
  from V1 d V2 ok show ?thesis by blast
qed


end
